theory Spec2Isabelle
  imports Main "HOL-Library.Word" "HOL-Library.Sublist"
begin

section \<open>Values of the JavaScript run time\<close>

text \<open>
  A \<^verbatim>\<open>Uint8Array\<close> is a list of 8-bit words, and \<^verbatim>\<open>a.slice(i, j)\<close> is
  \<open>take (j - i) (drop i a)\<close>. A JavaScript string is a \<open>string\<close>. A thrown \<^verbatim>\<open>Error\<close>
  is a value carrying its message; every function that can throw returns \<open>error + 'a\<close>,
  with \<open>Inl\<close> the thrown error. A JSON document (a response body, a message of type
  \<^verbatim>\<open>any\<close>) is a value of \<open>json\<close>, whose numbers are the integers (code ids, status and
  error codes, indices); \<^verbatim>\<open>undefined\<close> is \<open>None\<close> of \<open>json option\<close>. An \<^verbatim>\<open>async\<close> function
  is the sequence of its steps: the client is used by one task at a time.
\<close>

type_synonym byte = "8 word"
type_synonym bytes = "byte list"

datatype error = Error (message: string)

datatype json =
    JNull
  | JBool bool
  | JNum int
  | JStr string
  | JArr "json list"
  | JObj "(string \<times> json) list"

text \<open>The message of a \<^verbatim>\<open>TypeError\<close> raised by the engine is engine specific.\<close>

definition TypeError :: error where
  "TypeError = Error ''TypeError''"

text \<open>Property read \<^verbatim>\<open>v.name\<close> on a value that is neither null nor undefined.\<close>

fun own_prop :: "json \<Rightarrow> string \<Rightarrow> json option" where
  "own_prop (JObj fields) name = map_of fields name"
| "own_prop _ name = None"

text \<open>Property read through a possibly undefined or null value: that one throws.\<close>

fun read_prop :: "json option \<Rightarrow> string \<Rightarrow> error + json option" where
  "read_prop None name = Inl TypeError"
| "read_prop (Some JNull) name = Inl TypeError"
| "read_prop (Some v) name = Inr (own_prop v name)"

text \<open>Truthiness, as \<^verbatim>\<open>if (v)\<close>, \<^verbatim>\<open>!v\<close> and \<^verbatim>\<open>v || d\<close> test it.\<close>

fun truthy :: "json option \<Rightarrow> bool" where
  "truthy None = False"
| "truthy (Some JNull) = False"
| "truthy (Some (JBool b)) = b"
| "truthy (Some (JNum n)) = (n \<noteq> 0)"
| "truthy (Some (JStr s)) = (s \<noteq> [])"
| "truthy (Some (JArr xs)) = True"
| "truthy (Some (JObj fs)) = True"

text \<open>\<^verbatim>\<open>Number.prototype.toString\<close> on an integral number: decimal digits.\<close>

fun nat_digits :: "nat \<Rightarrow> string" where
  "nat_digits n =
     (if n < 10 then [''0123456789'' ! n]
      else nat_digits (n div 10) @ [''0123456789'' ! (n mod 10)])"

definition Number_toString :: "int \<Rightarrow> string" where
  "Number_toString i = (if i < 0 then CHR ''-'' # nat_digits (nat (- i)) else nat_digits (nat i))"

section \<open>The libraries and the outside world\<close>

text \<open>
  The packages the code imports (curve25519-js, js-crypto-hkdf, miscreant, secure-random,
  axios, @iov/encoding) and the built-ins it calls are not part of the repository. They
  are the fields of one record, and every function of the model takes that record. The
  network and the random source are oracles indexed by the number of requests and draws
  made so far, which the \<open>world\<close> counts: the n-th request may be answered by anything.
\<close>

datatype http_result =
    Response json
  | Failure error "(int \<times> json) option"

record world =
  requests :: nat
  draws :: nat

record 'siv libs =
  generateKeyPair :: "bytes \<Rightarrow> error + bytes \<times> bytes"
  sharedKey :: "bytes \<Rightarrow> bytes \<Rightarrow> error + bytes"
  hkdf_compute :: "bytes \<Rightarrow> string \<Rightarrow> nat \<Rightarrow> string \<Rightarrow> bytes \<Rightarrow> error + bytes"
  SIV_importKey :: "bytes \<Rightarrow> string \<Rightarrow> error + 'siv"
  SIV_seal :: "'siv \<Rightarrow> bytes \<Rightarrow> bytes list \<Rightarrow> error + bytes"
  SIV_open :: "'siv \<Rightarrow> bytes \<Rightarrow> bytes list \<Rightarrow> error + bytes"
  secureRandom :: "nat \<Rightarrow> nat \<Rightarrow> bytes"
  axios_get :: "nat \<Rightarrow> string \<Rightarrow> http_result"
  axios_post :: "nat \<Rightarrow> string \<Rightarrow> json \<Rightarrow> http_result"
  toUtf8 :: "string \<Rightarrow> bytes"
  fromUtf8 :: "bytes \<Rightarrow> error + string"
  toBase64 :: "bytes \<Rightarrow> string"
  fromBase64 :: "string \<Rightarrow> error + bytes"
  toHex :: "bytes \<Rightarrow> string"
  fromHex :: "string \<Rightarrow> error + bytes"
  JSON_stringify :: "json \<Rightarrow> string"
  JSON_stringify_bytes :: "bytes \<Rightarrow> string"
  JSON_parse :: "string \<Rightarrow> error + json"
  ToString :: "json option \<Rightarrow> string"
  String_replace :: "string \<Rightarrow> string \<Rightarrow> string \<Rightarrow> string"

text \<open>
  \<^verbatim>\<open>generateKeyPair\<close> returns the pair (private, public); \<^verbatim>\<open>hkdf_compute\<close> returns the
  \<^verbatim>\<open>key\<close> field of its result; \<^verbatim>\<open>secureRandom i n\<close> is the i-th draw, of n bytes;
  \<^verbatim>\<open>axios_get i url\<close> is the outcome of the i-th request.
\<close>

subsection \<open>Sequencing of calls that can throw and that change a state\<close>

definition returnE :: "'a \<Rightarrow> 's \<Rightarrow> (error + 'a) \<times> 's" where
  "returnE a s = (Inr a, s)"

definition throwE :: "error \<Rightarrow> 's \<Rightarrow> (error + 'a) \<times> 's" where
  "throwE e s = (Inl e, s)"

definition liftE :: "error + 'a \<Rightarrow> 's \<Rightarrow> (error + 'a) \<times> 's" where
  "liftE r s = (r, s)"

definition bindE ::
  "('s \<Rightarrow> (error + 'a) \<times> 's) \<Rightarrow> ('a \<Rightarrow> 's \<Rightarrow> (error + 'b) \<times> 's) \<Rightarrow> 's \<Rightarrow> (error + 'b) \<times> 's" where
  "bindE m f s = (case m s of (Inl e, s') \<Rightarrow> (Inl e, s') | (Inr a, s') \<Rightarrow> f a s')"

definition catchE ::
  "('s \<Rightarrow> (error + 'a) \<times> 's) \<Rightarrow> (error \<Rightarrow> 's \<Rightarrow> (error + 'a) \<times> 's) \<Rightarrow> 's \<Rightarrow> (error + 'a) \<times> 's" where
  "catchE m h s = (case m s of (Inl e, s') \<Rightarrow> h e s' | (Inr a, s') \<Rightarrow> (Inr a, s'))"

text \<open>\<^verbatim>\<open>Encoding.fromBase64(v)\<close> on a value of type \<^verbatim>\<open>any\<close>: only a string has \<^verbatim>\<open>match\<close>.\<close>

fun fromBase64_any :: "'siv libs \<Rightarrow> json option \<Rightarrow> error + bytes" where
  "fromBase64_any L (Some (JStr s)) = fromBase64 L s"
| "fromBase64_any L _ = Inl TypeError"

section \<open>enigmautils.js\<close>

definition hkdfSalt :: bytes where
  "hkdfSalt =
     [0x00, 0x00, 0x00, 0x00, 0x00, 0x00, 0x00, 0x00,
      0x00, 0x02, 0x4b, 0xea, 0xd8, 0xdf, 0x69, 0x99,
      0x08, 0x52, 0xc2, 0x02, 0xdb, 0x0e, 0x00, 0x97,
      0xc1, 0xa1, 0x2e, 0xa6, 0x37, 0xd7, 0xe9, 0x6d]"

record enigma =
  apiUrl :: string
  seed :: bytes
  privkey :: bytes
  pubkey :: bytes
  consensusIoPubKey :: bytes

type_synonym 'a enigma_io = "enigma \<times> world \<Rightarrow> (error + 'a) \<times> enigma \<times> world"

definition GenerateNewSeed :: "'siv libs \<Rightarrow> world \<Rightarrow> bytes \<times> world" where
  "GenerateNewSeed L w = (secureRandom L (draws w) 32, w\<lparr>draws := Suc (draws w)\<rparr>)"

definition GenerateNewKeyPairFromSeed :: "'siv libs \<Rightarrow> bytes \<Rightarrow> error + bytes \<times> bytes" where
  "GenerateNewKeyPairFromSeed L sd =
     (case generateKeyPair L sd of
        Inl e \<Rightarrow> Inl e
      | Inr (private, public) \<Rightarrow> Inr (private, public))"

text \<open>
  The constructor. The seed argument is \<open>None\<close> when the caller passes nothing (the only
  falsy value of its type: a \<^verbatim>\<open>Uint8Array\<close>, even an empty one, is truthy).
\<close>

definition EnigmaUtils_new :: "'siv libs \<Rightarrow> string \<Rightarrow> bytes option \<Rightarrow> world \<Rightarrow> (error + enigma) \<times> world" where
  "EnigmaUtils_new L url sd_arg w =
     (let (sd, w') = (case sd_arg of None \<Rightarrow> GenerateNewSeed L w | Some s \<Rightarrow> (s, w))
      in case GenerateNewKeyPairFromSeed L sd of
           Inl e \<Rightarrow> (Inl e, w')
         | Inr (priv, pub) \<Rightarrow>
             (Inr \<lparr>apiUrl = url, seed = sd, privkey = priv, pubkey = pub, consensusIoPubKey = []\<rparr>, w'))"

definition GenerateNewKeyPair :: "'siv libs \<Rightarrow> world \<Rightarrow> (error + bytes \<times> bytes) \<times> world" where
  "GenerateNewKeyPair L w = (let (sd, w') = GenerateNewSeed L w in (GenerateNewKeyPairFromSeed L sd, w'))"

text \<open>
  \<^verbatim>\<open>const { data: { result: { ioExchPubkey } } } = await axios.get(...)\<close>: the
  destructuring throws when \<^verbatim>\<open>data\<close> or \<^verbatim>\<open>data.result\<close> is null or undefined.
\<close>

definition ioExchPubkey_of :: "json \<Rightarrow> error + json option" where
  "ioExchPubkey_of d =
     (case read_prop (Some d) ''result'' of
        Inl e \<Rightarrow> Inl e
      | Inr r \<Rightarrow> read_prop r ''ioExchPubkey'')"

definition getConsensusIoPubKey :: "'siv libs \<Rightarrow> bytes enigma_io" where
  "getConsensusIoPubKey L = (\<lambda>(u, w).
     if length (consensusIoPubKey u) = 32 then (Inr (consensusIoPubKey u), u, w)
     else
       (let w' = w\<lparr>requests := Suc (requests w)\<rparr> in
        case axios_get L (requests w) (apiUrl u @ ''/reg/consensus-io-exch-pubkey'') of
          Failure err resp \<Rightarrow> (Inl err, u, w')
        | Response d \<Rightarrow>
            (case ioExchPubkey_of d of
               Inl e \<Rightarrow> (Inl e, u, w')
             | Inr k \<Rightarrow>
                 (case fromBase64_any L k of
                    Inl e \<Rightarrow> (Inl e, u, w')
                  | Inr decoded \<Rightarrow> (Inr decoded, u\<lparr>consensusIoPubKey := decoded\<rparr>, w')))))"

definition getTxEncryptionKey :: "'siv libs \<Rightarrow> bytes \<Rightarrow> bytes \<Rightarrow> bytes enigma_io" where
  "getTxEncryptionKey L txSenderPrivKey nonce =
     bindE (getConsensusIoPubKey L) (\<lambda>ioPubKey.
     bindE (liftE (sharedKey L txSenderPrivKey ioPubKey)) (\<lambda>txEncryptionIkm.
     liftE (hkdf_compute L (txEncryptionIkm @ nonce) ''SHA-256'' 32 [] hkdfSalt)))"

definition encrypt :: "'siv libs \<Rightarrow> string \<Rightarrow> json \<Rightarrow> bytes enigma_io" where
  "encrypt L contractCodeHash msg = (\<lambda>(u, w).
     (let nonce = secureRandom L (draws w) 32 in
      bindE (getTxEncryptionKey L (privkey u) nonce) (\<lambda>txEncryptionKey.
      bindE (liftE (SIV_importKey L txEncryptionKey ''AES-SIV'')) (\<lambda>siv.
      bindE (liftE (SIV_seal L siv (toUtf8 L (contractCodeHash @ JSON_stringify L msg)) [[]])) (\<lambda>ciphertext.
      (\<lambda>(u', w'). (Inr (nonce @ pubkey u' @ ciphertext), u', w')))))
      (u, w\<lparr>draws := Suc (draws w)\<rparr>)))"

definition decrypt :: "'siv libs \<Rightarrow> bytes \<Rightarrow> bytes \<Rightarrow> bytes enigma_io" where
  "decrypt L ciphertext nonce = (\<lambda>(u, w).
     if length ciphertext = 0 then (Inr [], u, w)
     else
       bindE (getTxEncryptionKey L (privkey u) nonce) (\<lambda>txEncryptionKey.
       bindE (liftE (SIV_importKey L txEncryptionKey ''AES-SIV'')) (\<lambda>siv.
       liftE (SIV_open L siv ciphertext [[]])))
       (u, w))"

definition getPubkey :: "enigma \<Rightarrow> bytes" where
  "getPubkey u = pubkey u"

section \<open>logs.js\<close>

record attribute =
  attr_key :: string
  attr_value :: "string option"

record event =
  event_type :: string
  attributes :: "attribute list"

record log =
  msg_index :: int
  log_text :: string
  events :: "event list"

text \<open>
  The fields are \<^verbatim>\<open>key\<close>, \<^verbatim>\<open>value\<close>, \<^verbatim>\<open>type\<close> and \<^verbatim>\<open>log\<close> in the source. A
  parsed attribute always has a value; an attribute of a response that was only cast to
  its type may have none, hence the option.
\<close>

text \<open>\<^verbatim>\<open>isNonNullObject\<close> of @iov/encoding: \<^verbatim>\<open>typeof data === "object" && data !== null\<close>.\<close>

fun isNonNullObject :: "json \<Rightarrow> bool" where
  "isNonNullObject (JObj fs) = True"
| "isNonNullObject (JArr xs) = True"
| "isNonNullObject _ = False"

text \<open>\<^verbatim>\<open>xs.map(f)\<close> with an \<open>f\<close> that can throw: the first throw ends the loop.\<close>

fun mapE :: "('a \<Rightarrow> error + 'b) \<Rightarrow> 'a list \<Rightarrow> error + 'b list" where
  "mapE f [] = Inr []"
| "mapE f (x # xs) =
     (case f x of
        Inl e \<Rightarrow> Inl e
      | Inr y \<Rightarrow> (case mapE f xs of Inl e \<Rightarrow> Inl e | Inr ys \<Rightarrow> Inr (y # ys)))"

definition parseAttribute :: "json \<Rightarrow> error + attribute" where
  "parseAttribute input =
     (if \<not> isNonNullObject input then Inl (Error ''Attribute must be a non-null object'')
      else
        (case own_prop input ''key'' of
           Some (JStr k) \<Rightarrow>
             (if k = [] then Inl (Error ''Attribute's key must be a non-empty string'')
              else
                (case own_prop input ''value'' of
                   None \<Rightarrow> Inr \<lparr>attr_key = k, attr_value = Some []\<rparr>
                 | Some (JStr v) \<Rightarrow> Inr \<lparr>attr_key = k, attr_value = Some v\<rparr>
                 | Some _ \<Rightarrow> Inl (Error ''Attribute's value must be a string or unset'')))
         | _ \<Rightarrow> Inl (Error ''Attribute's key must be a non-empty string'')))"

definition parseEvent :: "json \<Rightarrow> error + event" where
  "parseEvent input =
     (if \<not> isNonNullObject input then Inl (Error ''Event must be a non-null object'')
      else
        (case own_prop input ''type'' of
           Some (JStr t) \<Rightarrow>
             (if t = [] then Inl (Error ''Event type must be a non-empty string'')
              else
                (case own_prop input ''attributes'' of
                   Some (JArr as) \<Rightarrow>
                     (case mapE parseAttribute as of
                        Inl e \<Rightarrow> Inl e
                      | Inr ps \<Rightarrow> Inr \<lparr>event_type = t, attributes = ps\<rparr>)
                 | _ \<Rightarrow> Inl (Error ''Event's attributes must be an array'')))
         | _ \<Rightarrow> Inl (Error ''Event type must be a non-empty string'')))"

definition parseLog :: "json \<Rightarrow> error + log" where
  "parseLog input =
     (if \<not> isNonNullObject input then Inl (Error ''Log must be a non-null object'')
      else
        (case own_prop input ''msg_index'' of
           Some (JNum i) \<Rightarrow>
             (case own_prop input ''log'' of
                Some (JStr l) \<Rightarrow>
                  (case own_prop input ''events'' of
                     Some (JArr es) \<Rightarrow>
                       (case mapE parseEvent es of
                          Inl e \<Rightarrow> Inl e
                        | Inr ps \<Rightarrow> Inr \<lparr>msg_index = i, log_text = l, events = ps\<rparr>)
                   | _ \<Rightarrow> Inl (Error ''Log's events must be an array''))
              | _ \<Rightarrow> Inl (Error ''Log's log must be a string''))
         | _ \<Rightarrow> Inl (Error ''Log's msg_index must be a number'')))"

definition parseLogs :: "json \<Rightarrow> error + log list" where
  "parseLogs input =
     (case input of
        JArr ls \<Rightarrow> mapE parseLog ls
      | _ \<Rightarrow> Inl (Error ''Logs must be an array''))"

section \<open>restclient.js\<close>

datatype BroadcastMode = Block | Sync | Async

fun mode_string :: "BroadcastMode \<Rightarrow> string" where
  "mode_string Block = ''block''"
| "mode_string Sync = ''sync''"
| "mode_string Async = ''async''"

text \<open>
  \<^verbatim>\<open>codeHashCache\<close> is a JavaScript \<^verbatim>\<open>Map\<close>, declared \<^verbatim>\<open>Map<any, string>\<close>: its keys are
  JavaScript values, the number \<^verbatim>\<open>id\<close> in \<^verbatim>\<open>getCodeHashByCodeId(id: number)\<close> and the string
  \<^verbatim>\<open>addr\<close> in \<^verbatim>\<open>getCodeHashByContractAddr(addr: string)\<close>, compared without any
  conversion. The stored value is whatever \<^verbatim>\<open>responseData.result\<close> was, \<^verbatim>\<open>undefined\<close>
  included.
\<close>

record rest =
  baseURL :: string
  broadcastMode :: BroadcastMode
  enigmautils :: enigma
  codeHashCache :: "json \<rightharpoonup> json option"

type_synonym 'a rest_io = "rest \<times> world \<Rightarrow> (error + 'a) \<times> rest \<times> world"

text \<open>The constructors are the functions named \<open>_new\<close>.\<close>

definition RestClient_new ::
  "'siv libs \<Rightarrow> string \<Rightarrow> BroadcastMode \<Rightarrow> bytes option \<Rightarrow> world \<Rightarrow> (error + rest) \<times> world" where
  "RestClient_new L url mode sd_arg w =
     (case EnigmaUtils_new L url sd_arg w of
        (Inl e, w') \<Rightarrow> (Inl e, w')
      | (Inr u, w') \<Rightarrow>
          (Inr \<lparr>baseURL = url, broadcastMode = mode, enigmautils = u, codeHashCache = Map.empty\<rparr>, w'))"

text \<open>A method of \<^verbatim>\<open>this.enigmautils\<close> called from the client.\<close>

definition with_enigmautils :: "'a enigma_io \<Rightarrow> 'a rest_io" where
  "with_enigmautils m = (\<lambda>(c, w).
     case m (enigmautils c, w) of (r, u', w') \<Rightarrow> (r, c\<lparr>enigmautils := u'\<rparr>, w'))"

text \<open>\<^verbatim>\<open>resp.error !== undefined\<close>.\<close>

definition isWasmError :: "json \<Rightarrow> bool" where
  "isWasmError resp = (own_prop resp ''error'' \<noteq> None)"

definition parseAxiosError :: "'siv libs \<Rightarrow> error \<Rightarrow> (int \<times> json) option \<Rightarrow> error" where
  "parseAxiosError L err response =
     (case response of
        None \<Rightarrow> err
      | Some (status, d) \<Rightarrow>
          (if truthy (Some d) then
             (let errorText =
                (case own_prop d ''error'' of
                   Some (JStr s) \<Rightarrow> (if s \<noteq> [] then s else JSON_stringify L d)
                 | _ \<Rightarrow> (case d of JStr s \<Rightarrow> s | _ \<Rightarrow> JSON_stringify L d))
              in Error (errorText @ '' (HTTP '' @ Number_toString status @ '')''))
           else err))"

definition get :: "'siv libs \<Rightarrow> string \<Rightarrow> json rest_io" where
  "get L path = (\<lambda>(c, w).
     (let w' = w\<lparr>requests := Suc (requests w)\<rparr> in
      case axios_get L (requests w) (baseURL c @ path) of
        Failure err response \<Rightarrow> (Inl (parseAxiosError L err response), c, w')
      | Response d \<Rightarrow>
          (if d = JNull then (Inl (Error ''Received null response from server''), c, w')
           else (Inr d, c, w'))))"

definition post :: "'siv libs \<Rightarrow> string \<Rightarrow> json \<Rightarrow> json rest_io" where
  "post L path params = (\<lambda>(c, w).
     if \<not> isNonNullObject params then
       (Inl (Error ''Got unexpected type of params. Expected object.''), c, w)
     else
       (let w' = w\<lparr>requests := Suc (requests w)\<rparr> in
        case axios_post L (requests w) (baseURL c @ path) params of
          Failure err response \<Rightarrow> (Inl (parseAxiosError L err response), c, w')
        | Response d \<Rightarrow>
            (if d = JNull then (Inl (Error ''Received null response from server''), c, w')
             else (Inr d, c, w'))))"

text \<open>\<^verbatim>\<open>postTx\<close> of the \<^verbatim>\<open>RestClient\<close>; the one of the \<^verbatim>\<open>CosmWasmClient\<close> is below.\<close>

definition RestClient_postTx :: "'siv libs \<Rightarrow> json \<Rightarrow> json rest_io" where
  "RestClient_postTx L tx = (\<lambda>(c, w).
     bindE (post L ''/txs'' (JObj [(''tx'', tx), (''mode'', JStr (mode_string (broadcastMode c)))]))
       (\<lambda>responseData.
          if \<not> truthy (own_prop responseData ''txhash'')
          then throwE (Error ''Unexpected response data format'')
          else returnE responseData)
       (c, w))"

text \<open>The two values of \<^verbatim>\<open>const path\<close>.\<close>

definition code_hash_path :: "int \<Rightarrow> string" where
  "code_hash_path id' = ''/wasm/code/'' @ Number_toString id' @ ''/hash''"

definition contract_code_hash_path :: "string \<Rightarrow> string" where
  "contract_code_hash_path addr = ''/wasm/contract/'' @ addr @ ''/code-hash''"

definition getCodeHashByCodeId :: "'siv libs \<Rightarrow> int \<Rightarrow> json option rest_io" where
  "getCodeHashByCodeId L id' = (\<lambda>(c, w).
     case codeHashCache c (JNum id') of
       Some (Some (JStr codeHashFromCache)) \<Rightarrow> (Inr (Some (JStr codeHashFromCache)), c, w)
     | _ \<Rightarrow>
         bindE (get L (code_hash_path id'))
           (\<lambda>responseData. \<lambda>(c', w').
              (Inr (own_prop responseData ''result''),
               c'\<lparr>codeHashCache := (codeHashCache c')(JNum id' \<mapsto> own_prop responseData ''result'')\<rparr>,
               w'))
           (c, w))"

definition getCodeHashByContractAddr :: "'siv libs \<Rightarrow> string \<Rightarrow> json option rest_io" where
  "getCodeHashByContractAddr L addr = (\<lambda>(c, w).
     case codeHashCache c (JStr addr) of
       Some (Some (JStr codeHashFromCache)) \<Rightarrow> (Inr (Some (JStr codeHashFromCache)), c, w)
     | _ \<Rightarrow>
         bindE (get L (contract_code_hash_path addr))
           (\<lambda>responseData. \<lambda>(c', w').
              (Inr (own_prop responseData ''result''),
               c'\<lparr>codeHashCache := (codeHashCache c')(JStr addr \<mapsto> own_prop responseData ''result'')\<rparr>,
               w'))
           (c, w))"

subsection \<open>The two error patterns\<close>

text \<open>
  Both regular expressions have the shape \<^verbatim>\<open>/lit1(.+?)lit2/g\<close>, run by \<^verbatim>\<open>exec\<close> on a
  fresh expression object: the leftmost start of \<^verbatim>\<open>lit1\<close>, then the shortest non-empty
  run of characters other than line terminators that \<^verbatim>\<open>lit2\<close> follows. The result is
  the captured group.
\<close>

fun lazy_group :: "string \<Rightarrow> string \<Rightarrow> string \<Rightarrow> string option" where
  "lazy_group lit2 acc [] = None"
| "lazy_group lit2 acc (c # rest) =
     (if c = CHR 0x0A \<or> c = CHR 0x0D then None
      else if prefix lit2 rest then Some (acc @ [c])
      else lazy_group lit2 (acc @ [c]) rest)"

fun exec_lazy :: "string \<Rightarrow> string \<Rightarrow> string \<Rightarrow> string option" where
  "exec_lazy lit1 lit2 [] = None"
| "exec_lazy lit1 lit2 (c # rest) =
     (if prefix lit1 (c # rest) then
        (case lazy_group lit2 [] (drop (length lit1) (c # rest)) of
           Some g \<Rightarrow> Some g
         | None \<Rightarrow> exec_lazy lit1 lit2 rest)
      else exec_lazy lit1 lit2 rest)"

definition smart_query_error_rgx :: "string \<Rightarrow> string option" where
  "smart_query_error_rgx = exec_lazy ''contract failed: encrypted: '' '' (HTTP 500)''"

definition tx_error_rgx :: "string \<Rightarrow> string option" where
  "tx_error_rgx =
     exec_lazy ''contract failed: encrypted: '' '': failed to execute message; message index: 0''"

subsection \<open>Smart queries\<close>

text \<open>The left operand of \<^verbatim>\<open>contractCodeHash + JSON.stringify(msg)\<close>, as a string.\<close>

definition as_string :: "'siv libs \<Rightarrow> json option \<Rightarrow> string" where
  "as_string L v = (case v of Some (JStr s) \<Rightarrow> s | _ \<Rightarrow> ToString L v)"

text \<open>The \<^verbatim>\<open>catch (err)\<close> block of \<^verbatim>\<open>queryContractSmart\<close>; it always throws.\<close>

definition smart_query_catch :: "'siv libs \<Rightarrow> bytes \<Rightarrow> error \<Rightarrow> json rest_io" where
  "smart_query_catch L nonce err =
     bindE
       (catchE
          (case smart_query_error_rgx (message err) of
             None \<Rightarrow> throwE err
           | Some errorCipherB64 \<Rightarrow>
               bindE (liftE (fromBase64 L errorCipherB64)) (\<lambda>errorCipherBz.
               bindE (with_enigmautils (decrypt L errorCipherBz nonce)) (\<lambda>errorPlainBz.
               bindE (liftE (fromUtf8 L errorPlainBz)) (\<lambda>plain.
               returnE (Error (String_replace L (message err) errorCipherB64 plain))))))
          (\<lambda>decryptionError.
             throwE (Error (''Failed to decrypt the following error message: '' @ message err
                            @ ''. Decryption error of the error message: '' @ message decryptionError))))
       (\<lambda>err'. throwE err')"

text \<open>The read of \<^verbatim>\<open>responseData.result.smart\<close>; it throws when there is no \<^verbatim>\<open>result\<close>.\<close>

definition smart_of :: "json \<Rightarrow> error + json option" where
  "smart_of responseData =
     (case read_prop (Some responseData) ''result'' of
        Inl e \<Rightarrow> Inl e
      | Inr r \<Rightarrow> read_prop r ''smart'')"

text \<open>The value of \<^verbatim>\<open>const path\<close>, from the address and the value of \<^verbatim>\<open>const encoded\<close>.\<close>

definition smart_query_path :: "string \<Rightarrow> string \<Rightarrow> string" where
  "smart_query_path address encoded = ''/wasm/contract/'' @ address @ ''/query/'' @ encoded @ ''?encoding=hex''"

definition queryContractSmart :: "'siv libs \<Rightarrow> string \<Rightarrow> json \<Rightarrow> json rest_io" where
  "queryContractSmart L address query =
     bindE (getCodeHashByContractAddr L address) (\<lambda>contractCodeHash.
     bindE (with_enigmautils (encrypt L (as_string L contractCodeHash) query)) (\<lambda>encrypted.
       (let nonce = take 32 encrypted;
            encoded = toHex L (toUtf8 L (toBase64 L encrypted));
            path = smart_query_path address encoded
        in
        bindE (catchE (get L path) (smart_query_catch L nonce)) (\<lambda>responseData.
          if isWasmError responseData then
            bindE (liftE (fromBase64_any L (own_prop responseData ''error''))) (\<lambda>errorCipherBz.
            bindE (with_enigmautils (decrypt L errorCipherBz nonce)) (\<lambda>errorPlainBz.
            throwE (Error (JSON_stringify_bytes L errorPlainBz))))
          else
            bindE (liftE (smart_of responseData)) (\<lambda>smart.
            bindE (liftE (fromBase64_any L smart)) (\<lambda>cipherBz.
            bindE (with_enigmautils (decrypt L cipherBz nonce)) (\<lambda>plainBz.
            bindE (liftE (fromUtf8 L plainBz)) (\<lambda>b64.
            bindE (liftE (fromBase64 L b64)) (\<lambda>resultBz.
            bindE (liftE (fromUtf8 L resultBz)) (\<lambda>text.
            liftE (JSON_parse L text)))))))))))"

subsection \<open>Decryption of transaction results\<close>

text \<open>
  A message of a transaction is \<^verbatim>\<open>{ type, value }\<close> with \<^verbatim>\<open>value: any\<close>: an object read
  and written by property name. The \<^verbatim>\<open>data\<close> of a response is declared \<^verbatim>\<open>any\<close>: unset or
  a hex string when it arrives, a \<^verbatim>\<open>Uint8Array\<close> once \<^verbatim>\<open>decryptTxsResponse\<close> has stored
  the decrypted bytes there.
\<close>

record tx_msg =
  msg_type :: string
  msg_value :: "string \<rightharpoonup> json"

record std_tx =
  msg :: "tx_msg list"
  fee :: json
  signatures :: json
  memo :: "string option"

record cosmos_sdk_tx =
  tx_type :: string
  tx_value :: std_tx

datatype data_field = DataUnset | DataString string | DataBytes bytes

record txs_response =
  height :: string
  txhash :: string
  codespace :: "string option"
  code :: "int option"
  raw_log :: string
  data :: data_field
  logs :: "log list option"
  tx :: cosmos_sdk_tx
  gas_wanted :: "string option"
  gas_used :: "string option"
  timestamp :: string

text \<open>
  The argument of \<^verbatim>\<open>decryptDataField(dataField = "", nonce)\<close>: the default replaces
  \<^verbatim>\<open>undefined\<close>, and \<^verbatim>\<open>Encoding.fromHex\<close> throws on a value that is not a string.
\<close>

fun dataField_hex :: "'siv libs \<Rightarrow> data_field \<Rightarrow> error + bytes" where
  "dataField_hex L DataUnset = fromHex L []"
| "dataField_hex L (DataString s) = fromHex L s"
| "dataField_hex L (DataBytes b) = Inl TypeError"

definition decryptDataField :: "'siv libs \<Rightarrow> data_field \<Rightarrow> bytes \<Rightarrow> bytes rest_io" where
  "decryptDataField L dataField nonce =
     bindE (liftE (dataField_hex L dataField)) (\<lambda>wasmOutputDataCipherBz.
     bindE (with_enigmautils (decrypt L wasmOutputDataCipherBz nonce)) (\<lambda>plainBz.
     bindE (liftE (fromUtf8 L plainBz)) (\<lambda>b64.
     liftE (fromBase64 L b64))))"

text \<open>
  The body of one \<^verbatim>\<open>try\<close> of \<^verbatim>\<open>decryptLogs\<close>, on the field read (\<open>None\<close> when the
  attribute has no \<^verbatim>\<open>value\<close>).
\<close>

definition decrypt_text :: "'siv libs \<Rightarrow> bytes \<Rightarrow> string option \<Rightarrow> string rest_io" where
  "decrypt_text L nonce field =
     bindE (liftE (case field of None \<Rightarrow> Inl TypeError | Some s \<Rightarrow> fromBase64 L s)) (\<lambda>cipherBz.
     bindE (with_enigmautils (decrypt L cipherBz nonce)) (\<lambda>plainBz.
     liftE (fromUtf8 L plainBz)))"

text \<open>A \<^verbatim>\<open>for (const x of xs)\<close> loop whose body updates \<^verbatim>\<open>x\<close> in place and cannot throw.\<close>

fun for_of :: "('a \<Rightarrow> 's \<Rightarrow> 'a \<times> 's) \<Rightarrow> 'a list \<Rightarrow> 's \<Rightarrow> 'a list \<times> 's" where
  "for_of body [] s = ([], s)"
| "for_of body (x # xs) s =
     (case body x s of (y, s1) \<Rightarrow> (case for_of body xs s1 of (ys, s2) \<Rightarrow> (y # ys, s2)))"

text \<open>
  The bodies of the three nested loops of \<^verbatim>\<open>decryptLogs\<close>, innermost first: the two
  \<^verbatim>\<open>try\<close> blocks on an attribute, the test of the type of an event, the events of a log.
\<close>

definition decryptAttribute :: "'siv libs \<Rightarrow> bytes \<Rightarrow> attribute \<Rightarrow> rest \<times> world \<Rightarrow> attribute \<times> rest \<times> world" where
  "decryptAttribute L nonce a s =
     (case decrypt_text L nonce (Some (attr_key a)) s of (r1, s1) \<Rightarrow>
        (let a1 = (case r1 of Inr k \<Rightarrow> a\<lparr>attr_key := k\<rparr> | Inl e \<Rightarrow> a) in
         case decrypt_text L nonce (attr_value a1) s1 of (r2, s2) \<Rightarrow>
           ((case r2 of Inr v \<Rightarrow> a1\<lparr>attr_value := Some v\<rparr> | Inl e \<Rightarrow> a1), s2)))"

definition decryptEvent :: "'siv libs \<Rightarrow> bytes \<Rightarrow> event \<Rightarrow> rest \<times> world \<Rightarrow> event \<times> rest \<times> world" where
  "decryptEvent L nonce e s =
     (if event_type e = ''wasm'' then
        (case for_of (decryptAttribute L nonce) (attributes e) s of
           (as, s') \<Rightarrow> (e\<lparr>attributes := as\<rparr>, s'))
      else (e, s))"

definition decryptLog :: "'siv libs \<Rightarrow> bytes \<Rightarrow> log \<Rightarrow> rest \<times> world \<Rightarrow> log \<times> rest \<times> world" where
  "decryptLog L nonce l s =
     (case for_of (decryptEvent L nonce) (events l) s of (es, s') \<Rightarrow> (l\<lparr>events := es\<rparr>, s'))"

definition decryptLogs :: "'siv libs \<Rightarrow> log list \<Rightarrow> bytes \<Rightarrow> log list rest_io" where
  "decryptLogs L ls nonce s =
     (case for_of (decryptLog L nonce) ls s of (ls', s') \<Rightarrow> (Inr ls', s'))"

text \<open>The assignment to \<^verbatim>\<open>txsResponse.tx.value.msg[0].value.msg\<close> or \<^verbatim>\<open>.init_msg\<close>.\<close>

definition set_input_msg :: "txs_response \<Rightarrow> string \<Rightarrow> string \<Rightarrow> txs_response" where
  "set_input_msg r name inputMsg =
     (case msg (tx_value (tx r)) of
        [] \<Rightarrow> r
      | m # ms \<Rightarrow>
          r\<lparr>tx := (tx r)\<lparr>tx_value := (tx_value (tx r))
               \<lparr>msg := m\<lparr>msg_value := (msg_value m)(name \<mapsto> JStr inputMsg)\<rparr> # ms\<rparr>\<rparr>\<rparr>)"

text \<open>The branch \<^verbatim>\<open>// my pubkey, can decrypt\<close>.\<close>

definition decrypt_own_tx ::
  "'siv libs \<Rightarrow> txs_response \<Rightarrow> string \<Rightarrow> bytes \<Rightarrow> txs_response rest_io" where
  "decrypt_own_tx L txsResponse name inputMsgEncrypted =
     (let nonce = take 32 inputMsgEncrypted in
      bindE (with_enigmautils (decrypt L (drop 64 inputMsgEncrypted) nonce)) (\<lambda>inputBz.
      bindE (liftE (fromUtf8 L inputBz)) (\<lambda>inputMsg.
        (let r1 = set_input_msg txsResponse name inputMsg in
         bindE (decryptDataField L (data r1) nonce) (\<lambda>d.
           (let r2 = r1\<lparr>data := DataBytes d\<rparr> in
            bindE (case logs r2 of
                     None \<Rightarrow> returnE r2
                   | Some ls \<Rightarrow> bindE (decryptLogs L ls nonce) (\<lambda>ls'. returnE (r2\<lparr>logs := Some ls'\<rparr>)))
              (\<lambda>r3.
                 case tx_error_rgx (raw_log r3) of
                   None \<Rightarrow> returnE r3
                 | Some errorCipherB64 \<Rightarrow>
                     bindE (liftE (fromBase64 L errorCipherB64)) (\<lambda>errorCipherBz.
                     bindE (with_enigmautils (decrypt L errorCipherBz nonce)) (\<lambda>errorPlainBz.
                     bindE (liftE (fromUtf8 L errorPlainBz)) (\<lambda>plain.
                     returnE (r3\<lparr>raw_log := String_replace L (raw_log r3) errorCipherB64 plain\<rparr>)))))))))))"

definition decryptTxsResponse :: "'siv libs \<Rightarrow> txs_response \<Rightarrow> txs_response rest_io" where
  "decryptTxsResponse L txsResponse = (\<lambda>(c, w).
     case msg (tx_value (tx txsResponse)) of
       [m] \<Rightarrow>
         (case (if msg_type m = ''wasm/MsgExecuteContract'' then Some ''msg''
                else if msg_type m = ''wasm/MsgInstantiateContract'' then Some ''init_msg''
                else None) of
            None \<Rightarrow> (Inr txsResponse, c, w)
          | Some name \<Rightarrow>
              (case fromBase64_any L (msg_value m name) of
                 Inl e \<Rightarrow> (Inl e, c, w)
               | Inr inputMsgEncrypted \<Rightarrow>
                   (let inputMsgPubkey = take 32 (drop 32 inputMsgEncrypted) in
                    if toBase64 L (getPubkey (enigmautils c)) = toBase64 L inputMsgPubkey
                    then decrypt_own_tx L txsResponse name inputMsgEncrypted (c, w)
                    else (Inr txsResponse, c, w))))
     | _ \<Rightarrow> (Inr txsResponse, c, w))"

section \<open>cosmwasmclient.js\<close>

record cosmwasm_client =
  restClient :: rest
  codesCache :: "int \<rightharpoonup> json"
  anyValidAddress :: "string option"
  chainId :: "string option"

definition CosmWasmClient_new ::
  "'siv libs \<Rightarrow> string \<Rightarrow> bytes option \<Rightarrow> BroadcastMode \<Rightarrow> world \<Rightarrow> (error + cosmwasm_client) \<times> world" where
  "CosmWasmClient_new L url sd_arg mode w =
     (case RestClient_new L url mode sd_arg w of
        (Inl e, w') \<Rightarrow> (Inl e, w')
      | (Inr c, w') \<Rightarrow>
          (Inr \<lparr>restClient = c, codesCache = Map.empty, anyValidAddress = None, chainId = None\<rparr>, w'))"

record post_tx_result =
  result_logs :: "log list"
  rawLog :: json
  transactionHash :: string
  result_data :: json

text \<open>The fields are \<^verbatim>\<open>logs\<close>, \<^verbatim>\<open>rawLog\<close>, \<^verbatim>\<open>transactionHash\<close> and \<^verbatim>\<open>data\<close> in the source.\<close>

text \<open>
  \<^verbatim>\<open>/^([0-9A-F][0-9A-F])+$/\<close>: one or more pairs of characters of the class, from the
  start of the string to its end.
\<close>

definition upper_hex_digit :: "char \<Rightarrow> bool" where
  "upper_hex_digit c = (c \<in> set ''0123456789ABCDEF'')"

fun txhash_rgx :: "string \<Rightarrow> bool" where
  "txhash_rgx (a # b # rest) =
     (upper_hex_digit a \<and> upper_hex_digit b \<and> (rest = [] \<or> txhash_rgx rest))"
| "txhash_rgx _ = False"

text \<open>\<^verbatim>\<open>v || ""\<close>.\<close>

fun or_empty_string :: "json option \<Rightarrow> json" where
  "or_empty_string None = JStr []"
| "or_empty_string (Some v) = (if truthy (Some v) then v else JStr [])"

definition CosmWasmClient_postTx ::
  "'siv libs \<Rightarrow> json \<Rightarrow> rest \<times> world \<Rightarrow> (error + post_tx_result) \<times> rest \<times> world" where
  "CosmWasmClient_postTx L stdtx =
     bindE (RestClient_postTx L stdtx) (\<lambda>result.
       case own_prop result ''txhash'' of
         Some (JStr h) \<Rightarrow>
           (if \<not> txhash_rgx h then
              throwE (Error ''Received ill-formatted txhash. Must be non-empty upper-case hex'')
            else if truthy (own_prop result ''code'') then
              throwE (Error (''Error when posting tx '' @ h
                             @ ''. Code: '' @ ToString L (own_prop result ''code'')
                             @ ''; Raw log: '' @ ToString L (own_prop result ''raw_log'')))
            else
              bindE (liftE (case own_prop result ''logs'' of
                              None \<Rightarrow> Inr []
                            | Some ls \<Rightarrow> (if truthy (Some ls) then parseLogs ls else Inr [])))
                (\<lambda>parsed.
                   returnE \<lparr>result_logs = parsed,
                            rawLog = or_empty_string (own_prop result ''raw_log''),
                            transactionHash = h,
                            result_data = or_empty_string (own_prop result ''data'')\<rparr>))
       | _ \<Rightarrow> throwE TypeError)"

text \<open>
  \<^verbatim>\<open>postTx\<close> reads and writes nothing of the client but \<^verbatim>\<open>this.restClient\<close>, so it is
  stated on that field.
\<close>

section \<open>The signing client\<close>

record coin =
  amount :: string
  denom :: string

record std_fee =
  fee_amount :: "coin list"
  gas :: string

text \<open>
  \<^verbatim>\<open>fee_amount\<close> is the \<^verbatim>\<open>amount\<close> of a \<^verbatim>\<open>StdFee\<close>. A fee table is a JavaScript object:
  a map from the names of its own properties to their values. \<^verbatim>\<open>Partial<FeeTable>\<close>
  allows a property that is present with the value \<^verbatim>\<open>undefined\<close>, which is \<open>Some None\<close>.
\<close>

type_synonym fee_object = "string \<rightharpoonup> std_fee option"

definition singleAmount :: "int \<Rightarrow> string \<Rightarrow> coin list" where
  "singleAmount a d = [\<lparr>amount = Number_toString a, denom = d\<rparr>]"

definition defaultFees :: fee_object where
  "defaultFees =
     [''upload'' \<mapsto> Some \<lparr>fee_amount = singleAmount 25000 ''ucosm'', gas = ''1000000''\<rparr>,
      ''init'' \<mapsto> Some \<lparr>fee_amount = singleAmount 12500 ''ucosm'', gas = ''500000''\<rparr>,
      ''exec'' \<mapsto> Some \<lparr>fee_amount = singleAmount 5000 ''ucosm'', gas = ''200000''\<rparr>,
      ''send'' \<mapsto> Some \<lparr>fee_amount = singleAmount 2000 ''ucosm'', gas = ''80000''\<rparr>]"

text \<open>
  \<^verbatim>\<open>Object.assign(target, source)\<close> copies every own enumerable property of the source
  onto the target, a property whose value is \<^verbatim>\<open>undefined\<close> included.
\<close>

definition Object_assign :: "(string \<rightharpoonup> 'v) \<Rightarrow> (string \<rightharpoonup> 'v) \<Rightarrow> (string \<rightharpoonup> 'v)" where
  "Object_assign target source = target ++ source"

text \<open>
  \<^verbatim>\<open>Object.assign(Object.assign({}, defaultFees), (customFees || {}))\<close>; the argument
  is \<open>None\<close> when it is not passed.
\<close>

definition merge_fees :: "fee_object option \<Rightarrow> fee_object" where
  "merge_fees customFees =
     Object_assign (Object_assign Map.empty defaultFees)
       (case customFees of None \<Rightarrow> Map.empty | Some fs \<Rightarrow> fs)"

text \<open>
  The fourth argument of the constructor is a seed, an object that implements
  \<^verbatim>\<open>SecretUtils\<close> (here: an \<^verbatim>\<open>EnigmaUtils\<close>), or nothing.
\<close>

datatype seed_or_utils = SeedArg bytes | UtilsArg enigma

record 'signer signing_client = cosmwasm_client +
  senderAddress :: string
  signer :: 'signer
  fees :: fee_object

definition SigningCosmWasmClient_new ::
  "'siv libs \<Rightarrow> string \<Rightarrow> string \<Rightarrow> 'signer \<Rightarrow> seed_or_utils option \<Rightarrow> fee_object option
     \<Rightarrow> BroadcastMode \<Rightarrow> world \<Rightarrow> (error + 'signer signing_client) \<times> world" where
  "SigningCosmWasmClient_new L url sender signer_arg seedOrEnigmaUtils customFees mode w =
     (case CosmWasmClient_new L url
             (case seedOrEnigmaUtils of Some (SeedArg sd) \<Rightarrow> Some sd | _ \<Rightarrow> None) mode w of
        (Inl e, w') \<Rightarrow> (Inl e, w')
      | (Inr super, w') \<Rightarrow>
          (Inr \<lparr>restClient =
                   (case seedOrEnigmaUtils of
                      Some (UtilsArg u) \<Rightarrow> (restClient super)\<lparr>enigmautils := u\<rparr>
                    | _ \<Rightarrow> restClient super),
                 codesCache = codesCache super,
                 anyValidAddress = Some sender,
                 chainId = chainId super,
                 senderAddress = sender,
                 signer = signer_arg,
                 fees = merge_fees customFees\<rparr>, w'))"

section \<open>What the libraries are assumed to do\<close>

text \<open>
  Modelled from the spec: the key generation of curve25519-js (\<^verbatim>\<open>generateKeyPair\<close>) is
  not in the repository. The spec gives its contract: a key pair of two 32-byte values,
  infallible once the seed length is 32, and a seed of any other length is rejected.
\<close>

definition keypair_contract :: "'siv libs \<Rightarrow> bool" where
  "keypair_contract L =
     (\<forall>sd. case generateKeyPair L sd of
             Inl e \<Rightarrow> length sd \<noteq> 32
           | Inr (private, public) \<Rightarrow> length sd = 32 \<and> length private = 32 \<and> length public = 32)"

text \<open>
  What the other statements need of the key generation: the two keys it returns are
  \<^verbatim>\<open>Uint8Array\<close>s of 32 bytes.
\<close>

definition keypair_size_contract :: "'siv libs \<Rightarrow> bool" where
  "keypair_size_contract L =
     (\<forall>sd private public. generateKeyPair L sd = Inr (private, public) \<longrightarrow>
        length private = 32 \<and> length public = 32)"

text \<open>\<^verbatim>\<open>secureRandom(n, { type: "Uint8Array" })\<close> returns n bytes.\<close>

definition secureRandom_contract :: "'siv libs \<Rightarrow> bool" where
  "secureRandom_contract L = (\<forall>i n. length (secureRandom L i n) = n)"

text \<open>
  AES-SIV: what \<^verbatim>\<open>seal\<close> produced under a key and associated data, \<^verbatim>\<open>open\<close> returns
  under the same key and associated data; a sealed message is never empty (it starts
  with the 16-byte tag).
\<close>

definition SIV_contract :: "'siv libs \<Rightarrow> bool" where
  "SIV_contract L =
     (\<forall>k alg siv pt ad ct.
        SIV_importKey L k alg = Inr siv \<longrightarrow> SIV_seal L siv pt ad = Inr ct \<longrightarrow>
        SIV_open L siv ct ad = Inr pt \<and> ct \<noteq> [])"

section \<open>Statements about several calls\<close>

text \<open>A call of one of the two code-hash lookups; a sequence of them is an interleaving.\<close>

datatype lookup = ByCodeId int | ByContractAddr string

fun run_lookups :: "'siv libs \<Rightarrow> lookup list \<Rightarrow> rest \<times> world \<Rightarrow> rest \<times> world" where
  "run_lookups L [] s = s"
| "run_lookups L (ByCodeId i # ls) s = run_lookups L ls (snd (getCodeHashByCodeId L i s))"
| "run_lookups L (ByContractAddr a # ls) s = run_lookups L ls (snd (getCodeHashByContractAddr L a s))"

text \<open>
  The value \<open>h\<close> is the \<^verbatim>\<open>result\<close> of some response of the server at \<open>url\<close> to a
  request for the hash of code \<open>i\<close>, respectively for the code hash of the contract at
  \<open>a\<close>.
\<close>

definition fetched_for_code :: "'siv libs \<Rightarrow> string \<Rightarrow> int \<Rightarrow> json option \<Rightarrow> bool" where
  "fetched_for_code L url i h =
     (\<exists>n d. axios_get L n (url @ code_hash_path i) = Response d \<and> h = own_prop d ''result'')"

definition fetched_for_contract :: "'siv libs \<Rightarrow> string \<Rightarrow> string \<Rightarrow> json option \<Rightarrow> bool" where
  "fetched_for_contract L url a h =
     (\<exists>n d. axios_get L n (url @ contract_code_hash_path a) = Response d \<and> h = own_prop d ''result'')"










section \<open>A reference instance of the libraries\<close>

text \<open>
  One concrete instance of the record of libraries, on which the statements below are
  evaluated. Base64 and hex are the encodings of RFC 4648; UTF-8 is restricted to ASCII;
  the key agreement, the key derivation and the cipher are small stand-ins that have the
  shape of the real ones (32-byte keys, a 16-byte tag in front of the sealed message);
  the JSON functions cover a fragment. The server is a parameter.
\<close>

definition b64_alphabet :: string where
  "b64_alphabet = ''ABCDEFGHIJKLMNOPQRSTUVWXYZabcdefghijklmnopqrstuvwxyz0123456789+/''"

definition b64_char :: "nat \<Rightarrow> char" where
  "b64_char n = b64_alphabet ! n"

definition b64_value :: "char \<Rightarrow> nat option" where
  "b64_value c =
     (let n = (of_char c :: nat) in
      if 65 \<le> n \<and> n \<le> 90 then Some (n - 65)
      else if 97 \<le> n \<and> n \<le> 122 then Some (n - 71)
      else if 48 \<le> n \<and> n \<le> 57 then Some (n + 4)
      else if n = 43 then Some 62
      else if n = 47 then Some 63
      else None)"

fun b64_encode :: "nat list \<Rightarrow> string" where
  "b64_encode (a # b # c # rest) =
     [b64_char (a div 4), b64_char ((a mod 4) * 16 + b div 16),
      b64_char ((b mod 16) * 4 + c div 64), b64_char (c mod 64)] @ b64_encode rest"
| "b64_encode [a, b] =
     [b64_char (a div 4), b64_char ((a mod 4) * 16 + b div 16), b64_char ((b mod 16) * 4), CHR ''='']"
| "b64_encode [a] = [b64_char (a div 4), b64_char ((a mod 4) * 16), CHR ''='', CHR ''='']"
| "b64_encode [] = []"

fun b64_decode :: "string \<Rightarrow> nat list option" where
  "b64_decode [] = Some []"
| "b64_decode (a # b # c # d # rest) =
     (case (b64_value a, b64_value b) of
        (Some x, Some y) \<Rightarrow>
          (if rest = [] \<and> c = CHR ''='' \<and> d = CHR ''='' then Some [x * 4 + y div 16]
           else
             (case b64_value c of
                Some z \<Rightarrow>
                  (if rest = [] \<and> d = CHR ''='' then Some [x * 4 + y div 16, (y mod 16) * 16 + z div 4]
                   else
                     (case b64_value d of
                        Some t \<Rightarrow>
                          (case b64_decode rest of
                             Some bs \<Rightarrow>
                               Some ([x * 4 + y div 16, (y mod 16) * 16 + z div 4, (z mod 4) * 64 + t] @ bs)
                           | None \<Rightarrow> None)
                      | None \<Rightarrow> None))
              | None \<Rightarrow> None))
      | _ \<Rightarrow> None)"
| "b64_decode _ = None"

definition ref_toBase64 :: "bytes \<Rightarrow> string" where
  "ref_toBase64 bs = b64_encode (map unat bs)"

definition ref_fromBase64 :: "string \<Rightarrow> error + bytes" where
  "ref_fromBase64 s =
     (case b64_decode s of
        None \<Rightarrow> Inl (Error ''Invalid base64 string format'')
      | Some ns \<Rightarrow> Inr (map of_nat ns))"

definition hex_value :: "char \<Rightarrow> nat option" where
  "hex_value c =
     (let n = (of_char c :: nat) in
      if 48 \<le> n \<and> n \<le> 57 then Some (n - 48)
      else if 97 \<le> n \<and> n \<le> 102 then Some (n - 87)
      else if 65 \<le> n \<and> n \<le> 70 then Some (n - 55)
      else None)"

fun hex_decode :: "string \<Rightarrow> nat list option" where
  "hex_decode [] = Some []"
| "hex_decode (a # b # rest) =
     (case (hex_value a, hex_value b, hex_decode rest) of
        (Some x, Some y, Some bs) \<Rightarrow> Some ((x * 16 + y) # bs)
      | _ \<Rightarrow> None)"
| "hex_decode _ = None"

definition ref_toHex :: "bytes \<Rightarrow> string" where
  "ref_toHex bs =
     concat (map (\<lambda>b. [''0123456789abcdef'' ! (unat b div 16), ''0123456789abcdef'' ! (unat b mod 16)]) bs)"

definition ref_fromHex :: "string \<Rightarrow> error + bytes" where
  "ref_fromHex s =
     (case hex_decode s of
        None \<Rightarrow> Inl (Error ''invalid hex string'')
      | Some ns \<Rightarrow> Inr (map of_nat ns))"

definition ref_toUtf8 :: "string \<Rightarrow> bytes" where
  "ref_toUtf8 s = map of_char s"

definition ref_fromUtf8 :: "bytes \<Rightarrow> error + string" where
  "ref_fromUtf8 bs =
     (if list_all (\<lambda>b. unat b < 128) bs then Inr (map (\<lambda>b. char_of (unat b)) bs)
      else Inl (Error ''Invalid UTF8 string''))"

definition ref_generateKeyPair :: "bytes \<Rightarrow> error + bytes \<times> bytes" where
  "ref_generateKeyPair sd =
     (if length sd = 32 then Inr (sd, map (\<lambda>b. b + 9) sd) else Inl (Error ''wrong seed length''))"

definition ref_sharedKey :: "bytes \<Rightarrow> bytes \<Rightarrow> error + bytes" where
  "ref_sharedKey secretKey publicKey =
     (if length publicKey \<noteq> 32 then Inl (Error ''wrong public key length'')
      else if length secretKey \<noteq> 32 then Inl (Error ''wrong secret key length'')
      else Inr (map2 (+) secretKey publicKey))"

definition ref_hkdf :: "bytes \<Rightarrow> string \<Rightarrow> nat \<Rightarrow> string \<Rightarrow> bytes \<Rightarrow> error + bytes" where
  "ref_hkdf master hash len info salt = Inr (take len (map2 (+) master (drop 32 master @ salt)))"

definition ref_importKey :: "bytes \<Rightarrow> string \<Rightarrow> error + bytes" where
  "ref_importKey k alg =
     (if length k = 32 \<and> alg = ''AES-SIV'' then Inr k else Inl (Error ''unsupported key''))"

definition ref_seal :: "bytes \<Rightarrow> bytes \<Rightarrow> bytes list \<Rightarrow> error + bytes" where
  "ref_seal k pt ad = Inr (take 16 k @ replicate (16 - length k) 0 @ map (\<lambda>b. b + 1) pt)"

definition ref_open :: "bytes \<Rightarrow> bytes \<Rightarrow> bytes list \<Rightarrow> error + bytes" where
  "ref_open k ct ad =
     (if take 16 ct = take 16 k @ replicate (16 - length k) 0
      then Inr (map (\<lambda>b. b - 1) (drop 16 ct))
      else Inl (Error ''AES-SIV: ciphertext verification failure!''))"

definition ref_secureRandom :: "nat \<Rightarrow> nat \<Rightarrow> bytes" where
  "ref_secureRandom i n = map (\<lambda>k. of_nat (13 * k + 7 * i + 5)) [0..<n]"

fun join_with :: "string \<Rightarrow> string list \<Rightarrow> string" where
  "join_with sep [] = []"
| "join_with sep [x] = x"
| "join_with sep (x # y # ys) = x @ sep @ join_with sep (y # ys)"

fun ref_stringify :: "json \<Rightarrow> string" where
  "ref_stringify JNull = ''null''"
| "ref_stringify (JBool b) = (if b then ''true'' else ''false'')"
| "ref_stringify (JNum n) = Number_toString n"
| "ref_stringify (JStr s) = CHR 0x22 # s @ [CHR 0x22]"
| "ref_stringify (JArr xs) = ''['' @ join_with '','' (map ref_stringify xs) @ '']''"
| "ref_stringify (JObj fs) =
     ''{'' @ join_with '','' (map (\<lambda>kv. CHR 0x22 # fst kv @ [CHR 0x22] @ '':'' @ ref_stringify (snd kv)) fs) @ ''}''"

definition ref_stringify_bytes :: "bytes \<Rightarrow> string" where
  "ref_stringify_bytes bs =
     ''{'' @ join_with '',''
              (map (\<lambda>ib. CHR 0x22 # nat_digits (fst ib) @ [CHR 0x22] @ '':'' @ nat_digits (unat (snd ib)))
                 (enumerate 0 bs)) @ ''}''"

definition ref_parse :: "string \<Rightarrow> error + json" where
  "ref_parse s =
     (if s = ''null'' then Inr JNull
      else if s = ''true'' then Inr (JBool True)
      else if s = ''false'' then Inr (JBool False)
      else if s = ''{}'' then Inr (JObj [])
      else if s = ''[]'' then Inr (JArr [])
      else if 2 \<le> length s \<and> hd s = CHR 0x22 \<and> last s = CHR 0x22 \<and> CHR 0x22 \<notin> set (butlast (tl s))
        then Inr (JStr (butlast (tl s)))
      else Inl (Error ''SyntaxError''))"

fun ref_ToString :: "json option \<Rightarrow> string" where
  "ref_ToString None = ''undefined''"
| "ref_ToString (Some JNull) = ''null''"
| "ref_ToString (Some (JBool b)) = (if b then ''true'' else ''false'')"
| "ref_ToString (Some (JNum n)) = Number_toString n"
| "ref_ToString (Some (JStr s)) = s"
| "ref_ToString (Some (JArr xs)) = join_with '','' (map ref_stringify xs)"
| "ref_ToString (Some (JObj fs)) = ''[object Object]''"

fun ref_replace :: "string \<Rightarrow> string \<Rightarrow> string \<Rightarrow> string" where
  "ref_replace [] pat rep = (if pat = [] then rep else [])"
| "ref_replace (c # cs) pat rep =
     (if prefix pat (c # cs) then rep @ drop (length pat) (c # cs)
      else c # ref_replace cs pat rep)"

definition ref_libs ::
  "(nat \<Rightarrow> string \<Rightarrow> http_result) \<Rightarrow> (nat \<Rightarrow> string \<Rightarrow> json \<Rightarrow> http_result) \<Rightarrow> bytes libs" where
  "ref_libs server_get server_post =
     \<lparr>generateKeyPair = ref_generateKeyPair,
      sharedKey = ref_sharedKey,
      hkdf_compute = ref_hkdf,
      SIV_importKey = ref_importKey,
      SIV_seal = ref_seal,
      SIV_open = ref_open,
      secureRandom = ref_secureRandom,
      axios_get = server_get,
      axios_post = server_post,
      toUtf8 = ref_toUtf8,
      fromUtf8 = ref_fromUtf8,
      toBase64 = ref_toBase64,
      fromBase64 = ref_fromBase64,
      toHex = ref_toHex,
      fromHex = ref_fromHex,
      JSON_stringify = ref_stringify,
      JSON_stringify_bytes = ref_stringify_bytes,
      JSON_parse = ref_parse,
      ToString = ref_ToString,
      String_replace = ref_replace\<rparr>"

text \<open>Servers: one that answers every request with the same body, one that is down.\<close>

definition constant_server :: "json \<Rightarrow> nat \<Rightarrow> string \<Rightarrow> http_result" where
  "constant_server body n url = Response body"

definition constant_post_server :: "json \<Rightarrow> nat \<Rightarrow> string \<Rightarrow> json \<Rightarrow> http_result" where
  "constant_post_server body n url params = Response body"

definition no_server :: "nat \<Rightarrow> string \<Rightarrow> http_result" where
  "no_server n url = Failure (Error ''Network Error'') None"

definition no_post_server :: "nat \<Rightarrow> string \<Rightarrow> json \<Rightarrow> http_result" where
  "no_post_server n url params = Failure (Error ''Network Error'') None"

definition io_pubkey_body :: "string \<Rightarrow> json" where
  "io_pubkey_body k = JObj [(''result'', JObj [(''ioExchPubkey'', JStr k)])]"

definition world0 :: world where
  "world0 = \<lparr>requests = 0, draws = 0\<rparr>"

text \<open>
  A client on the reference instance, and a server that answers every request with the
  base64 text of a 32-byte consensus key.
\<close>

definition ref_seed :: bytes where
  "ref_seed = [3, 20, 37, 54, 71, 88, 105, 122, 139, 156, 173, 190, 207, 224, 241, 2, 19, 36, 53, 70, 87, 104, 121, 138, 155, 172, 189, 206, 223, 240, 1, 18]"

definition ref_pubkey :: bytes where
  "ref_pubkey = [12, 29, 46, 63, 80, 97, 114, 131, 148, 165, 182, 199, 216, 233, 250, 11, 28, 45, 62, 79, 96, 113, 130, 147, 164, 181, 198, 215, 232, 249, 10, 27]"

definition ref_io_pubkey :: bytes where
  "ref_io_pubkey = [1, 9, 19, 31, 45, 61, 79, 99, 121, 145, 171, 199, 229, 5, 39, 75, 113, 153, 195, 239, 29, 77, 127, 179, 233, 33, 91, 151, 213, 21, 87, 155]"

definition ref_nonce :: bytes where
  "ref_nonce = [5, 18, 31, 44, 57, 70, 83, 96, 109, 122, 135, 148, 161, 174, 187, 200, 213, 226, 239, 252, 9, 22, 35, 48, 61, 74, 87, 100, 113, 126, 139, 152]"

definition ref_enigma :: enigma where
  "ref_enigma =
     \<lparr>apiUrl = ''http://localhost:1317'', seed = ref_seed, privkey = ref_seed, pubkey = ref_pubkey,
      consensusIoPubKey = []\<rparr>"

text \<open>
  The server of that client: it publishes the consensus key, knows the code hash of the
  contract at \<^verbatim>\<open>secret1contract\<close>, and answers every other request with the sealed
  result of a smart query.
\<close>

definition chain_server :: "nat \<Rightarrow> string \<Rightarrow> http_result" where
  "chain_server n url =
     (if url = ''http://localhost:1317/reg/consensus-io-exch-pubkey''
      then Response (io_pubkey_body ''AQkTHy09T2N5kavH5QUnS3GZw+8dTX+z6SFbl9UVV5s='')
      else if url = ''http://localhost:1317/wasm/contract/secret1contract/code-hash''
      then Response (JObj [(''height'', JStr ''7''), (''result'', JStr ''ab'')])
      else Response (JObj [(''height'', JStr ''7''), (''result'', JObj [(''smart'', JStr ''CS9Xga3bCz1xp98ZVZPTFWY0MT4='')])]))"

definition key_server_libs :: "bytes libs" where
  "key_server_libs = ref_libs chain_server no_post_server"

text \<open>
  A server that knows one code, number 1, and answers every other request as it would
  for the contract at the address \<^verbatim>\<open>1\<close>.
\<close>

definition hash_server :: "nat \<Rightarrow> string \<Rightarrow> http_result" where
  "hash_server n url =
     (if url = ''http://localhost:1317/wasm/code/1/hash''
      then Response (JObj [(''height'', JStr ''7''), (''result'', JStr ''c0de'')])
      else Response (JObj [(''height'', JStr ''7''), (''result'', JStr ''add7'')]))"

definition ref_rest :: rest where
  "ref_rest =
     \<lparr>baseURL = ''http://localhost:1317'', broadcastMode = Block, enigmautils = ref_enigma,
      codeHashCache = Map.empty\<rparr>"


definition foreign_envelope :: bytes where
  "foreign_envelope = ref_nonce @ [13, 30, 47, 64, 81, 98, 115, 132, 149, 166, 183, 200, 217, 234, 251, 12, 29, 46, 63, 80, 97, 114, 131, 148, 165, 182, 199, 216, 233, 250, 11, 28] @ [9, 47, 87, 129, 173, 219, 11, 61, 113, 167, 223, 25, 85, 147, 211, 21, 98, 99, 124, 126]"

definition foreign_tx :: txs_response where
  "foreign_tx =
     \<lparr>height = ''120'', txhash = ''0AF1'', codespace = None, code = None, raw_log = ''[]'',
      data = DataString ''00EE'',
      logs = Some [\<lparr>msg_index = 0, log_text = [],
                    events = [\<lparr>event_type = ''wasm'',
                               attributes = [\<lparr>attr_key = ''AAEC'', attr_value = Some ''AAEC''\<rparr>]\<rparr>]\<rparr>],
      tx = \<lparr>tx_type = ''cosmos-sdk/StdTx'',
            tx_value = \<lparr>msg = [\<lparr>msg_type = ''wasm/MsgExecuteContract'',
                                  msg_value = [''contract'' \<mapsto> JStr ''secret1contract'',
                                               ''msg'' \<mapsto> JStr ''BRIfLDlGU2BteoeUoa67yNXi7/wJFiMwPUpXZHF+i5gNHi9AUWJzhJWmt8jZ6vsMHS4/UGFyg5SltsfY6foLHAkvV4Gt2ws9caffGVWT0xViY3x+'']\<rparr>],
                         fee = JObj [], signatures = JArr [], memo = Some []\<rparr>\<rparr>,
      gas_wanted = None, gas_used = None, timestamp = ''2020-09-01T00:00:00Z''\<rparr>"



text \<open>The client after a smart query of the contract at \<^verbatim>\<open>secret1contract\<close>.\<close>

definition queried_rest :: rest where
  "queried_rest =
     ref_rest\<lparr>codeHashCache := [JStr ''secret1contract'' \<mapsto> Some (JStr ''ab'')],
               enigmautils := ref_enigma\<lparr>consensusIoPubKey := ref_io_pubkey\<rparr>\<rparr>"

section \<open>Properties\<close>

subsection \<open>The reference instance meets the contracts\<close>

lemma ref_libs_sel [simp]:
  "generateKeyPair (ref_libs g p) = ref_generateKeyPair"
  "sharedKey (ref_libs g p) = ref_sharedKey"
  "hkdf_compute (ref_libs g p) = ref_hkdf"
  "SIV_importKey (ref_libs g p) = ref_importKey"
  "SIV_seal (ref_libs g p) = ref_seal"
  "SIV_open (ref_libs g p) = ref_open"
  "secureRandom (ref_libs g p) = ref_secureRandom"
  "axios_get (ref_libs g p) = g"
  "axios_post (ref_libs g p) = p"
  "toUtf8 (ref_libs g p) = ref_toUtf8"
  "fromUtf8 (ref_libs g p) = ref_fromUtf8"
  "toBase64 (ref_libs g p) = ref_toBase64"
  "fromBase64 (ref_libs g p) = ref_fromBase64"
  "toHex (ref_libs g p) = ref_toHex"
  "fromHex (ref_libs g p) = ref_fromHex"
  "JSON_stringify (ref_libs g p) = ref_stringify"
  "JSON_stringify_bytes (ref_libs g p) = ref_stringify_bytes"
  "JSON_parse (ref_libs g p) = ref_parse"
  "ToString (ref_libs g p) = ref_ToString"
  "String_replace (ref_libs g p) = ref_replace"
  by (simp_all add: ref_libs_def)

lemma ref_keypair_contract: "keypair_contract (ref_libs g p)"
  by (simp add: keypair_contract_def ref_generateKeyPair_def)

lemma ref_keypair_size_contract: "keypair_size_contract (ref_libs g p)"
  by (auto simp: keypair_size_contract_def ref_generateKeyPair_def split: if_splits)

lemma ref_secureRandom_contract: "secureRandom_contract (ref_libs g p)"
  by (simp add: secureRandom_contract_def ref_secureRandom_def)

lemma ref_SIV_contract: "SIV_contract (ref_libs g p)"
  by (auto simp: SIV_contract_def ref_seal_def ref_open_def ref_importKey_def o_def
      split: if_splits)

lemma ref_enigma_sel [simp]:
  "apiUrl (ref_enigma\<lparr>consensusIoPubKey := k\<rparr>) = ''http://localhost:1317''"
  "privkey (ref_enigma\<lparr>consensusIoPubKey := k\<rparr>) = ref_seed"
  "pubkey (ref_enigma\<lparr>consensusIoPubKey := k\<rparr>) = ref_pubkey"
  "consensusIoPubKey (ref_enigma\<lparr>consensusIoPubKey := k\<rparr>) = k"
  "apiUrl ref_enigma = ''http://localhost:1317''"
  "privkey ref_enigma = ref_seed"
  "pubkey ref_enigma = ref_pubkey"
  "consensusIoPubKey ref_enigma = []"
  by (simp_all add: ref_enigma_def)

lemma ref_enigma_new:
  "EnigmaUtils_new (ref_libs g p) ''http://localhost:1317'' (Some ref_seed) world0 = (Inr ref_enigma, world0)"
  by (simp add: EnigmaUtils_new_def GenerateNewKeyPairFromSeed_def ref_generateKeyPair_def
      ref_enigma_def ref_seed_def ref_pubkey_def)

lemma ref_io_pubkey_decoded:
  "ref_fromBase64 ''AQkTHy09T2N5kavH5QUnS3GZw+8dTX+z6SFbl9UVV5s='' = Inr ref_io_pubkey"
  by (simp add: ref_fromBase64_def b64_value_def ref_io_pubkey_def)

lemma ref_nonce_drawn: "ref_secureRandom 0 32 = ref_nonce"
  by (simp add: ref_secureRandom_def ref_nonce_def upt_rec)

lemma key_server_fetch:
  "getConsensusIoPubKey key_server_libs (ref_enigma, w) =
     (Inr ref_io_pubkey, ref_enigma\<lparr>consensusIoPubKey := ref_io_pubkey\<rparr>, w\<lparr>requests := Suc (requests w)\<rparr>)"
  by (simp add: key_server_libs_def getConsensusIoPubKey_def chain_server_def io_pubkey_body_def
      ioExchPubkey_of_def ref_io_pubkey_decoded Let_def)

lemma key_server_cached:
  "getConsensusIoPubKey L (ref_enigma\<lparr>consensusIoPubKey := ref_io_pubkey\<rparr>, w) =
     (Inr ref_io_pubkey, ref_enigma\<lparr>consensusIoPubKey := ref_io_pubkey\<rparr>, w)"
  by (simp add: getConsensusIoPubKey_def ref_io_pubkey_def)

subsection \<open>What a successful call went through\<close>

lemma getConsensusIoPubKey_Inr:
  assumes "getConsensusIoPubKey L (u, w) = (Inr k, u', w')"
  shows "u' = u\<lparr>consensusIoPubKey := k\<rparr>"
  using assms
  by (auto simp: getConsensusIoPubKey_def Let_def split: if_splits http_result.splits sum.splits)

lemma getConsensusIoPubKey_Inr_cases:
  assumes "getConsensusIoPubKey L (u, w) = (Inr k, u', w')"
  shows "if length (consensusIoPubKey u) = 32
         then k = consensusIoPubKey u \<and> u' = u \<and> w' = w
         else (\<exists>d s. axios_get L (requests w) (apiUrl u @ ''/reg/consensus-io-exch-pubkey'') = Response d
                     \<and> ioExchPubkey_of d = Inr (Some (JStr s))
                     \<and> fromBase64 L s = Inr k)
              \<and> u' = u\<lparr>consensusIoPubKey := k\<rparr>
              \<and> w' = w\<lparr>requests := Suc (requests w)\<rparr>"
proof (cases "length (consensusIoPubKey u) = 32")
  case True
  with assms show ?thesis
    by (auto simp: getConsensusIoPubKey_def)
next
  case False
  with assms obtain d where d: "axios_get L (requests w) (apiUrl u @ ''/reg/consensus-io-exch-pubkey'') = Response d"
    by (cases "axios_get L (requests w) (apiUrl u @ ''/reg/consensus-io-exch-pubkey'')")
       (auto simp: getConsensusIoPubKey_def Let_def)
  with assms False obtain v where v: "ioExchPubkey_of d = Inr v"
    by (cases "ioExchPubkey_of d") (auto simp: getConsensusIoPubKey_def Let_def)
  with assms False d obtain s where s: "v = Some (JStr s)"
    by (cases "(L, v)" rule: fromBase64_any.cases) (auto simp: getConsensusIoPubKey_def Let_def)
  with assms False d v show ?thesis
    by (auto simp: getConsensusIoPubKey_def Let_def split: sum.splits)
qed

lemma getTxEncryptionKey_Inr:
  assumes "getTxEncryptionKey L priv nonce (u, w) = (Inr key, u', w')"
  shows "\<exists>k ikm. getConsensusIoPubKey L (u, w) = (Inr k, u', w')
           \<and> sharedKey L priv k = Inr ikm
           \<and> hkdf_compute L (ikm @ nonce) ''SHA-256'' 32 [] hkdfSalt = Inr key"
  using assms
  by (auto simp: getTxEncryptionKey_def bindE_def liftE_def split: prod.splits sum.splits)

lemma encrypt_Inr:
  assumes "encrypt L ch m (u, w) = (Inr out, u', w')"
  shows "\<exists>key siv ct.
           getTxEncryptionKey L (privkey u) (secureRandom L (draws w) 32) (u, w\<lparr>draws := Suc (draws w)\<rparr>)
             = (Inr key, u', w')
         \<and> SIV_importKey L key ''AES-SIV'' = Inr siv
         \<and> SIV_seal L siv (toUtf8 L (ch @ JSON_stringify L m)) [[]] = Inr ct
         \<and> out = secureRandom L (draws w) 32 @ pubkey u' @ ct"
  using assms
  by (auto simp: encrypt_def Let_def bindE_def liftE_def split: prod.splits sum.splits)

lemma decrypt_nonempty:
  assumes "ct \<noteq> []"
  shows "decrypt L ct nonce (u, w) =
           (case getTxEncryptionKey L (privkey u) nonce (u, w) of
              (Inl e, s) \<Rightarrow> (Inl e, s)
            | (Inr key, s) \<Rightarrow>
                (case SIV_importKey L key ''AES-SIV'' of
                   Inl e \<Rightarrow> (Inl e, s)
                 | Inr siv \<Rightarrow> (SIV_open L siv ct [[]], s)))"
  using assms
  by (auto simp: decrypt_def bindE_def liftE_def split: prod.splits sum.splits)

lemma EnigmaUtils_new_Inr:
  assumes "EnigmaUtils_new L url sd_arg w = (Inr u, w')"
  shows "\<exists>sd. generateKeyPair L sd = Inr (privkey u, pubkey u) \<and> seed u = sd \<and> apiUrl u = url
           \<and> consensusIoPubKey u = []
           \<and> (case sd_arg of None \<Rightarrow> sd = secureRandom L (draws w) 32 | Some s \<Rightarrow> sd = s)"
  using assms
  by (auto simp: EnigmaUtils_new_def GenerateNewKeyPairFromSeed_def GenerateNewSeed_def Let_def
      split: prod.splits sum.splits option.splits)

lemma keypair_size_contract_lengths:
  assumes "keypair_size_contract L" "generateKeyPair L sd = Inr (priv, pub)"
  shows "length priv = 32" "length pub = 32"
  using assms unfolding keypair_size_contract_def
  by blast+

subsection \<open>The envelope\<close>

lemma ref_encrypt_at:
  "encrypt key_server_libs ''ab'' (JObj []) (ref_enigma, \<lparr>requests = n, draws = 0\<rparr>) =
     (Inr (ref_nonce @ ref_pubkey @ [9, 47, 87, 129, 173, 219, 11, 61, 113, 167, 223, 25, 85, 147, 211, 21, 98, 99, 124, 126]),
      ref_enigma\<lparr>consensusIoPubKey := ref_io_pubkey\<rparr>, \<lparr>requests = Suc n, draws = 1\<rparr>)"
proof -
  have sel: "sharedKey key_server_libs = ref_sharedKey" "hkdf_compute key_server_libs = ref_hkdf"
    "SIV_importKey key_server_libs = ref_importKey" "SIV_seal key_server_libs = ref_seal"
    "secureRandom key_server_libs = ref_secureRandom" "toUtf8 key_server_libs = ref_toUtf8"
    "JSON_stringify key_server_libs = ref_stringify"
    by (simp_all add: key_server_libs_def)
  show ?thesis
    by (simp add: encrypt_def getTxEncryptionKey_def bindE_def liftE_def key_server_fetch sel
        ref_nonce_drawn ref_sharedKey_def ref_hkdf_def ref_importKey_def ref_seal_def ref_toUtf8_def
        hkdfSalt_def Let_def ref_seed_def ref_io_pubkey_def ref_nonce_def)
qed

lemma ref_encrypt:
  "encrypt key_server_libs ''ab'' (JObj []) (ref_enigma\<lparr>consensusIoPubKey := []\<rparr>, world0) =
     (Inr (ref_nonce @ ref_pubkey @ [9, 47, 87, 129, 173, 219, 11, 61, 113, 167, 223, 25, 85, 147, 211, 21, 98, 99, 124, 126]),
      ref_enigma\<lparr>consensusIoPubKey := ref_io_pubkey\<rparr>, \<lparr>requests = 1, draws = 1\<rparr>)"
proof -
  have same: "ref_enigma\<lparr>consensusIoPubKey := []\<rparr> = ref_enigma"
    by (simp add: ref_enigma_def)
  show ?thesis
    unfolding same world0_def by (simp add: ref_encrypt_at)
qed

text \<open>
  C6. Given that \<^verbatim>\<open>secureRandom(32)\<close> returns 32 bytes and that the generated keys have
  32 bytes: whenever \<^verbatim>\<open>encrypt\<close> returns, on a client made by the constructor (whatever
  the consensus key cached since), its output is the 32-byte nonce it drew, then the
  32-byte public key of the client, then the AES-SIV ciphertext of the UTF-8 bytes of
  the code hash followed by the serialised message; in particular bytes 32 to 64 of the
  output are the client's public key.
\<close>

theorem envelope_layout:
  assumes "secureRandom_contract L" and "keypair_size_contract L"
    and "EnigmaUtils_new L url sd_arg w0 = (Inr u0, w1)"
    and "encrypt L contractCodeHash m (u0\<lparr>consensusIoPubKey := k\<rparr>, w) = (Inr out, u', w')"
  shows "\<exists>key siv ciphertext.
           SIV_importKey L key ''AES-SIV'' = Inr siv
         \<and> SIV_seal L siv (toUtf8 L (contractCodeHash @ JSON_stringify L m)) [[]] = Inr ciphertext
         \<and> out = secureRandom L (draws w) 32 @ pubkey u0 @ ciphertext
         \<and> length (secureRandom L (draws w) 32) = 32
         \<and> length (pubkey u0) = 32
         \<and> take 32 (drop 32 out) = pubkey u0"
proof -
  let ?u = "u0\<lparr>consensusIoPubKey := k\<rparr>"
  let ?nonce = "secureRandom L (draws w) 32"
  from encrypt_Inr[OF assms(4)] obtain key siv ct where
    key: "getTxEncryptionKey L (privkey ?u) ?nonce (?u, w\<lparr>draws := Suc (draws w)\<rparr>) = (Inr key, u', w')"
    and siv: "SIV_importKey L key ''AES-SIV'' = Inr siv"
    and ct: "SIV_seal L siv (toUtf8 L (contractCodeHash @ JSON_stringify L m)) [[]] = Inr ct"
    and out: "out = ?nonce @ pubkey u' @ ct"
    by blast
  from getTxEncryptionKey_Inr[OF key] obtain k' where
    "getConsensusIoPubKey L (?u, w\<lparr>draws := Suc (draws w)\<rparr>) = (Inr k', u', w')"
    by blast
  from getConsensusIoPubKey_Inr[OF this] have pub: "pubkey u' = pubkey u0"
    by simp
  from EnigmaUtils_new_Inr[OF assms(3)] obtain sd where
    "generateKeyPair L sd = Inr (privkey u0, pubkey u0)"
    by blast
  from keypair_size_contract_lengths(2)[OF assms(2) this] have len_pub: "length (pubkey u0) = 32" .
  have len_nonce: "length ?nonce = 32"
    using assms(1) by (simp add: secureRandom_contract_def)
  have "take 32 (drop 32 out) = pubkey u0"
    using out pub len_pub len_nonce by simp
  with siv ct out pub len_pub len_nonce show ?thesis
    by blast
qed

theorem envelope_layout_witness:
  "secureRandom_contract key_server_libs \<and> keypair_size_contract key_server_libs
   \<and> EnigmaUtils_new key_server_libs ''http://localhost:1317'' (Some ref_seed) world0 = (Inr ref_enigma, world0)
   \<and> encrypt key_server_libs ''ab'' (JObj []) (ref_enigma\<lparr>consensusIoPubKey := []\<rparr>, world0) =
       (Inr (ref_nonce @ ref_pubkey @ [9, 47, 87, 129, 173, 219, 11, 61, 113, 167, 223, 25, 85, 147, 211, 21, 98, 99, 124, 126]),
        ref_enigma\<lparr>consensusIoPubKey := ref_io_pubkey\<rparr>, \<lparr>requests = 1, draws = 1\<rparr>)
   \<and> take 32 (drop 32 (ref_nonce @ ref_pubkey @ [9, 47, 87, 129, 173, 219, 11, 61, 113, 167, 223, 25, 85, 147, 211, 21, 98, 99, 124, 126])) = pubkey ref_enigma"
proof -
  have h1: "secureRandom_contract key_server_libs"
    unfolding key_server_libs_def by (rule ref_secureRandom_contract)
  have h2: "keypair_size_contract key_server_libs"
    unfolding key_server_libs_def by (rule ref_keypair_size_contract)
  have h3: "EnigmaUtils_new key_server_libs ''http://localhost:1317'' (Some ref_seed) world0 = (Inr ref_enigma, world0)"
    unfolding key_server_libs_def by (rule ref_enigma_new)
  note h4 = ref_encrypt
  from envelope_layout[OF h1 h2 h3 h4]
  have "take 32 (drop 32 (ref_nonce @ ref_pubkey @ [9, 47, 87, 129, 173, 219, 11, 61, 113, 167, 223, 25, 85, 147, 211, 21, 98, 99, 124, 126])) = pubkey ref_enigma"
    by blast
  with h1 h2 h3 h4 show ?thesis
    by blast
qed

subsection \<open>The seed\<close>

text \<open>
  C2. \<^verbatim>\<open>GenerateNewKeyPairFromSeed\<close> and the constructor called with a seed check nothing
  themselves: they return exactly when \<^verbatim>\<open>generateKeyPair\<close> of the library returns on
  that seed. Hence, given the contract of that function, they return exactly when the
  seed has 32 bytes and throw for every seed of another length; and the constructor
  called without a seed draws 32 random bytes and returns.
\<close>

theorem seed_length_precondition:
  "((\<exists>kp. GenerateNewKeyPairFromSeed L sd = Inr kp) \<longleftrightarrow> (\<exists>kp. generateKeyPair L sd = Inr kp))
   \<and> ((\<exists>u. fst (EnigmaUtils_new L url (Some sd) w) = Inr u) \<longleftrightarrow> (\<exists>kp. generateKeyPair L sd = Inr kp))
   \<and> (keypair_contract L \<longrightarrow>
        ((\<exists>kp. GenerateNewKeyPairFromSeed L sd = Inr kp) \<longleftrightarrow> length sd = 32)
        \<and> ((\<exists>u. fst (EnigmaUtils_new L url (Some sd) w) = Inr u) \<longleftrightarrow> length sd = 32))
   \<and> (keypair_contract L \<and> secureRandom_contract L \<longrightarrow>
        (\<exists>u. fst (EnigmaUtils_new L url None w) = Inr u))"
proof -
  have gen: "(\<exists>kp. generateKeyPair L s = Inr kp) \<longleftrightarrow> length s = 32" if "keypair_contract L" for s
  proof -
    from that have
      "case generateKeyPair L s of
         Inl e \<Rightarrow> length s \<noteq> 32
       | Inr (private, public) \<Rightarrow> length s = 32 \<and> length private = 32 \<and> length public = 32"
      unfolding keypair_contract_def by blast
    then show ?thesis
      by (cases "generateKeyPair L s") auto
  qed
  have a: "(\<exists>kp. GenerateNewKeyPairFromSeed L s = Inr kp) \<longleftrightarrow> (\<exists>kp. generateKeyPair L s = Inr kp)" for s
    by (auto simp: GenerateNewKeyPairFromSeed_def split: sum.splits)
  have b: "(\<exists>u. fst (EnigmaUtils_new L url sd_arg w) = Inr u) \<longleftrightarrow>
           (\<exists>kp. generateKeyPair L (case sd_arg of None \<Rightarrow> secureRandom L (draws w) 32 | Some s \<Rightarrow> s) = Inr kp)"
    for sd_arg
    by (cases sd_arg)
       (auto simp: EnigmaUtils_new_def GenerateNewKeyPairFromSeed_def GenerateNewSeed_def
          split: sum.splits prod.splits)
  have c: "\<exists>u. fst (EnigmaUtils_new L url None w) = Inr u"
    if "keypair_contract L" and "secureRandom_contract L"
  proof -
    from that(2) have "length (secureRandom L (draws w) 32) = 32"
      by (simp add: secureRandom_contract_def)
    with gen[OF that(1), of "secureRandom L (draws w) 32"] b[of None] show ?thesis
      by simp
  qed
  from a[of sd] b[of "Some sd"] gen[of sd] c show ?thesis
    by simp
qed

theorem seed_length_precondition_witness:
  "keypair_contract key_server_libs \<and> secureRandom_contract key_server_libs
   \<and> length ref_seed = 32
   \<and> (\<exists>kp. GenerateNewKeyPairFromSeed key_server_libs ref_seed = Inr kp)
   \<and> length [1, 2, 3 :: byte] \<noteq> 32
   \<and> \<not> (\<exists>u. fst (EnigmaUtils_new key_server_libs ''http://localhost:1317'' (Some [1, 2, 3]) world0) = Inr u)
   \<and> (\<exists>u. fst (EnigmaUtils_new key_server_libs ''http://localhost:1317'' None world0) = Inr u)"
proof -
  have h1: "keypair_contract key_server_libs"
    unfolding key_server_libs_def by (rule ref_keypair_contract)
  have h2: "secureRandom_contract key_server_libs"
    unfolding key_server_libs_def by (rule ref_secureRandom_contract)
  have l1: "length ref_seed = 32"
    by (simp add: ref_seed_def)
  have l2: "length [1, 2, 3 :: byte] \<noteq> 32"
    by simp
  from seed_length_precondition[of key_server_libs ref_seed] h1 l1
  have a: "\<exists>kp. GenerateNewKeyPairFromSeed key_server_libs ref_seed = Inr kp"
    by blast
  from seed_length_precondition[of key_server_libs "[1, 2, 3]" "''http://localhost:1317''" world0] h1 l2
  have b: "\<not> (\<exists>u. fst (EnigmaUtils_new key_server_libs ''http://localhost:1317'' (Some [1, 2, 3]) world0) = Inr u)"
    by blast
  from seed_length_precondition[of key_server_libs _ "''http://localhost:1317''" world0] h1 h2
  have c: "\<exists>u. fst (EnigmaUtils_new key_server_libs ''http://localhost:1317'' None world0) = Inr u"
    by blast
  from h1 h2 l1 l2 a b c show ?thesis
    by blast
qed

subsection \<open>The cache of the consensus key\<close>

text \<open>
  C3, as stated, fails: the decoded value is stored without any check of its length. A
  client built by the constructor, on a server whose \<^verbatim>\<open>ioExchPubkey\<close> is the base64 text
  \<^verbatim>\<open>AAEC\<close> of three bytes, ends with these three bytes in \<^verbatim>\<open>consensusIoPubKey\<close>, and no
  error is raised.
\<close>

theorem consensus_key_length_counterexample:
  "EnigmaUtils_new (ref_libs (constant_server (io_pubkey_body ''AAEC'')) no_post_server)
     ''http://localhost:1317'' (Some ref_seed) world0 = (Inr ref_enigma, world0)
   \<and> getConsensusIoPubKey (ref_libs (constant_server (io_pubkey_body ''AAEC'')) no_post_server)
       (ref_enigma, world0) =
       (Inr [0, 1, 2], ref_enigma\<lparr>consensusIoPubKey := [0, 1, 2]\<rparr>, \<lparr>requests = 1, draws = 0\<rparr>)
   \<and> length (consensusIoPubKey (ref_enigma\<lparr>consensusIoPubKey := [0, 1, 2]\<rparr>)) \<noteq> 32"
proof -
  have "ref_fromBase64 ''AAEC'' = Inr [0, 1, 2]"
    by (simp add: ref_fromBase64_def b64_value_def)
  then have "getConsensusIoPubKey (ref_libs (constant_server (io_pubkey_body ''AAEC'')) no_post_server)
       (ref_enigma, world0) =
       (Inr [0, 1, 2], ref_enigma\<lparr>consensusIoPubKey := [0, 1, 2]\<rparr>, \<lparr>requests = 1, draws = 0\<rparr>)"
    by (simp add: getConsensusIoPubKey_def constant_server_def io_pubkey_body_def
        ioExchPubkey_of_def Let_def world0_def)
  then show ?thesis
    by (simp add: ref_enigma_new)
qed

text \<open>
  C3, amended. A cached value of exactly 32 bytes is returned as it is, with no request
  and no change of state. Otherwise one request is made, and whenever the response
  carries a string \<^verbatim>\<open>result.ioExchPubkey\<close> that base64 accepts, the decoded bytes are
  returned and stored in the cache whatever their number: there is no assertion on the
  length. Conversely a call that returns a key went one of these two ways.
\<close>

theorem consensus_key_cache:
  "(length (consensusIoPubKey u) = 32 \<longrightarrow>
      getConsensusIoPubKey L (u, w) = (Inr (consensusIoPubKey u), u, w))
   \<and> (length (consensusIoPubKey u) \<noteq> 32 \<longrightarrow>
      axios_get L (requests w) (apiUrl u @ ''/reg/consensus-io-exch-pubkey'') = Response d \<longrightarrow>
      ioExchPubkey_of d = Inr (Some (JStr s)) \<longrightarrow>
      fromBase64 L s = Inr k \<longrightarrow>
      getConsensusIoPubKey L (u, w) =
        (Inr k, u\<lparr>consensusIoPubKey := k\<rparr>, w\<lparr>requests := Suc (requests w)\<rparr>))
   \<and> (getConsensusIoPubKey L (u, w) = (Inr k', u', w') \<longrightarrow>
      (if length (consensusIoPubKey u) = 32
       then k' = consensusIoPubKey u \<and> u' = u \<and> w' = w
       else (\<exists>d s. axios_get L (requests w) (apiUrl u @ ''/reg/consensus-io-exch-pubkey'') = Response d
                   \<and> ioExchPubkey_of d = Inr (Some (JStr s))
                   \<and> fromBase64 L s = Inr k')
            \<and> u' = u\<lparr>consensusIoPubKey := k'\<rparr>
            \<and> w' = w\<lparr>requests := Suc (requests w)\<rparr>))"
proof (intro conjI impI)
  assume "length (consensusIoPubKey u) = 32"
  then show "getConsensusIoPubKey L (u, w) = (Inr (consensusIoPubKey u), u, w)"
    by (simp add: getConsensusIoPubKey_def)
next
  assume "length (consensusIoPubKey u) \<noteq> 32"
    and "axios_get L (requests w) (apiUrl u @ ''/reg/consensus-io-exch-pubkey'') = Response d"
    and "ioExchPubkey_of d = Inr (Some (JStr s))"
    and "fromBase64 L s = Inr k"
  then show "getConsensusIoPubKey L (u, w) =
        (Inr k, u\<lparr>consensusIoPubKey := k\<rparr>, w\<lparr>requests := Suc (requests w)\<rparr>)"
    by (simp add: getConsensusIoPubKey_def Let_def)
next
  assume "getConsensusIoPubKey L (u, w) = (Inr k', u', w')"
  then show "if length (consensusIoPubKey u) = 32
       then k' = consensusIoPubKey u \<and> u' = u \<and> w' = w
       else (\<exists>d s. axios_get L (requests w) (apiUrl u @ ''/reg/consensus-io-exch-pubkey'') = Response d
                   \<and> ioExchPubkey_of d = Inr (Some (JStr s))
                   \<and> fromBase64 L s = Inr k')
            \<and> u' = u\<lparr>consensusIoPubKey := k'\<rparr>
            \<and> w' = w\<lparr>requests := Suc (requests w)\<rparr>"
    by (rule getConsensusIoPubKey_Inr_cases)
qed

lemma short_key_decoded: "ref_fromBase64 ''AAEC'' = Inr [0, 1, 2]"
  by (simp add: ref_fromBase64_def b64_value_def)

theorem consensus_key_cache_witness:
  "length (consensusIoPubKey ref_enigma) \<noteq> 32
   \<and> axios_get (ref_libs (constant_server (io_pubkey_body ''AAEC'')) no_post_server) (requests world0)
       (apiUrl ref_enigma @ ''/reg/consensus-io-exch-pubkey'') = Response (io_pubkey_body ''AAEC'')
   \<and> ioExchPubkey_of (io_pubkey_body ''AAEC'') = Inr (Some (JStr ''AAEC''))
   \<and> fromBase64 (ref_libs (constant_server (io_pubkey_body ''AAEC'')) no_post_server) ''AAEC'' = Inr [0, 1, 2]
   \<and> getConsensusIoPubKey (ref_libs (constant_server (io_pubkey_body ''AAEC'')) no_post_server) (ref_enigma, world0) =
       (Inr [0, 1, 2], ref_enigma\<lparr>consensusIoPubKey := [0, 1, 2]\<rparr>, world0\<lparr>requests := Suc (requests world0)\<rparr>)
   \<and> length (consensusIoPubKey (ref_enigma\<lparr>consensusIoPubKey := [0, 1, 2]\<rparr>)) \<noteq> 32
   \<and> getConsensusIoPubKey (ref_libs (constant_server (io_pubkey_body ''AAEC'')) no_post_server)
       (ref_enigma\<lparr>consensusIoPubKey := [0, 1, 2]\<rparr>, world0\<lparr>requests := Suc (requests world0)\<rparr>) =
       (Inr [0, 1, 2], ref_enigma\<lparr>consensusIoPubKey := [0, 1, 2]\<rparr>,
        world0\<lparr>requests := Suc (Suc (requests world0))\<rparr>)
   \<and> length (consensusIoPubKey (ref_enigma\<lparr>consensusIoPubKey := ref_io_pubkey\<rparr>)) = 32
   \<and> getConsensusIoPubKey (ref_libs (constant_server (io_pubkey_body ''AAEC'')) no_post_server)
       (ref_enigma\<lparr>consensusIoPubKey := ref_io_pubkey\<rparr>, world0) =
       (Inr ref_io_pubkey, ref_enigma\<lparr>consensusIoPubKey := ref_io_pubkey\<rparr>, world0)"
proof -
  let ?L = "ref_libs (constant_server (io_pubkey_body ''AAEC'')) no_post_server"
  let ?u1 = "ref_enigma\<lparr>consensusIoPubKey := [0, 1, 2]\<rparr>"
  let ?w1 = "world0\<lparr>requests := Suc (requests world0)\<rparr>"
  have n0: "length (consensusIoPubKey ref_enigma) \<noteq> 32"
    by simp
  have g0: "axios_get ?L (requests world0) (apiUrl ref_enigma @ ''/reg/consensus-io-exch-pubkey'') = Response (io_pubkey_body ''AAEC'')"
    by (simp add: constant_server_def)
  have p: "ioExchPubkey_of (io_pubkey_body ''AAEC'') = Inr (Some (JStr ''AAEC''))"
    by (simp add: io_pubkey_body_def ioExchPubkey_of_def)
  have b: "fromBase64 ?L ''AAEC'' = Inr [0, 1, 2]"
    by (simp add: short_key_decoded)
  have n1: "length (consensusIoPubKey ?u1) \<noteq> 32"
    by simp
  have g1: "axios_get ?L (requests ?w1) (apiUrl ?u1 @ ''/reg/consensus-io-exch-pubkey'') = Response (io_pubkey_body ''AAEC'')"
    by (simp add: constant_server_def)
  have n2: "length (consensusIoPubKey (ref_enigma\<lparr>consensusIoPubKey := ref_io_pubkey\<rparr>)) = 32"
    by (simp add: ref_io_pubkey_def)
  from consensus_key_cache[of ref_enigma ?L world0 "io_pubkey_body ''AAEC''" "''AAEC''" "[0, 1, 2]"] n0 g0 p b
  have first: "getConsensusIoPubKey ?L (ref_enigma, world0) = (Inr [0, 1, 2], ?u1, ?w1)"
    by blast
  from consensus_key_cache[of ?u1 ?L ?w1 "io_pubkey_body ''AAEC''" "''AAEC''" "[0, 1, 2]"] n1 g1 p b
  have "getConsensusIoPubKey ?L (?u1, ?w1) =
      (Inr [0, 1, 2], ?u1\<lparr>consensusIoPubKey := [0, 1, 2]\<rparr>, ?w1\<lparr>requests := Suc (requests ?w1)\<rparr>)"
    by blast
  then have second: "getConsensusIoPubKey ?L (?u1, ?w1) =
      (Inr [0, 1, 2], ?u1, world0\<lparr>requests := Suc (Suc (requests world0))\<rparr>)"
    by simp
  from consensus_key_cache[of "ref_enigma\<lparr>consensusIoPubKey := ref_io_pubkey\<rparr>" ?L world0] n2
  have third: "getConsensusIoPubKey ?L (ref_enigma\<lparr>consensusIoPubKey := ref_io_pubkey\<rparr>, world0) =
      (Inr ref_io_pubkey, ref_enigma\<lparr>consensusIoPubKey := ref_io_pubkey\<rparr>, world0)"
    by simp
  from n0 g0 p b first n1 second n2 third show ?thesis
    by blast
qed

subsection \<open>Sealing and opening\<close>

text \<open>
  C1. Given that AES-SIV \<^verbatim>\<open>open\<close> returns what \<^verbatim>\<open>seal\<close> sealed, that \<^verbatim>\<open>secureRandom(32)\<close>
  returns 32 bytes and that the generated keys have 32 bytes: on a client made by the
  constructor, when \<^verbatim>\<open>encrypt\<close> has returned an envelope, \<^verbatim>\<open>decrypt\<close> called with bytes
  64 to the end of the envelope as ciphertext and its first 32 bytes as nonce returns
  the UTF-8 bytes of the code hash followed by the serialised message, for every code
  hash, message and seed; provided the consensus key that \<^verbatim>\<open>encrypt\<close> used has 32 bytes
  (it is then read from the cache), or the server gives the same answer whenever it is
  asked for that key.
\<close>

theorem seal_open_round_trip:
  assumes "SIV_contract L" and "secureRandom_contract L" and "keypair_size_contract L"
    and "EnigmaUtils_new L url sd_arg w0 = (Inr u0, w1)"
    and "encrypt L ch j (u0\<lparr>consensusIoPubKey := k\<rparr>, w) = (Inr out, u', w')"
    and "length (consensusIoPubKey u') = 32
         \<or> (\<forall>n. axios_get L n (url @ ''/reg/consensus-io-exch-pubkey'')
                  = axios_get L (requests w) (url @ ''/reg/consensus-io-exch-pubkey''))"
  shows "fst (decrypt L (drop 64 out) (take 32 out) (u', w')) = Inr (toUtf8 L (ch @ JSON_stringify L j))"
proof -
  let ?u = "u0\<lparr>consensusIoPubKey := k\<rparr>"
  let ?w = "w\<lparr>draws := Suc (draws w)\<rparr>"
  let ?nonce = "secureRandom L (draws w) 32"
  let ?pt = "toUtf8 L (ch @ JSON_stringify L j)"
  let ?path = "''/reg/consensus-io-exch-pubkey''"
  from encrypt_Inr[OF assms(5)] obtain key siv ct where
    key: "getTxEncryptionKey L (privkey ?u) ?nonce (?u, ?w) = (Inr key, u', w')"
    and siv: "SIV_importKey L key ''AES-SIV'' = Inr siv"
    and ct: "SIV_seal L siv ?pt [[]] = Inr ct"
    and out: "out = ?nonce @ pubkey u' @ ct"
    by blast
  from getTxEncryptionKey_Inr[OF key] obtain k' ikm where
    fetch: "getConsensusIoPubKey L (?u, ?w) = (Inr k', u', w')"
    and ikm: "sharedKey L (privkey ?u) k' = Inr ikm"
    and hk: "hkdf_compute L (ikm @ ?nonce) ''SHA-256'' 32 [] hkdfSalt = Inr key"
    by blast
  from getConsensusIoPubKey_Inr[OF fetch] have u': "u' = ?u\<lparr>consensusIoPubKey := k'\<rparr>" .
  then have pub: "pubkey u' = pubkey u0" and priv: "privkey u' = privkey u0"
    and cached: "consensusIoPubKey u' = k'" and same: "u'\<lparr>consensusIoPubKey := k'\<rparr> = u'"
    by simp_all
  from EnigmaUtils_new_Inr[OF assms(4)] obtain sd where
    kp: "generateKeyPair L sd = Inr (privkey u0, pubkey u0)" and url: "apiUrl u0 = url"
    by blast
  from keypair_size_contract_lengths(2)[OF assms(3) kp] have len_pub: "length (pubkey u0) = 32" .
  have len_nonce: "length ?nonce = 32"
    using assms(2) by (simp add: secureRandom_contract_def)
  have parts: "drop 64 out = ct" "take 32 out = ?nonce"
    using out pub len_pub len_nonce by simp_all
  from assms(1) siv ct have opened: "SIV_open L siv ct [[]] = Inr ?pt" and ne: "ct \<noteq> []"
    unfolding SIV_contract_def by blast+
  have again: "\<exists>w''. getConsensusIoPubKey L (u', w') = (Inr k', u', w'')"
  proof (cases "length (consensusIoPubKey u') = 32")
    case True
    then show ?thesis
      using cached by (simp add: getConsensusIoPubKey_def)
  next
    case False
    with assms(6) have stable: "\<And>n. axios_get L n (url @ ?path) = axios_get L (requests w) (url @ ?path)"
      by blast
    have first: "length (consensusIoPubKey ?u) \<noteq> 32"
    proof
      assume "length (consensusIoPubKey ?u) = 32"
      with getConsensusIoPubKey_Inr_cases[OF fetch] have "u' = ?u"
        by simp
      with \<open>length (consensusIoPubKey ?u) = 32\<close> False show False
        by simp
    qed
    with getConsensusIoPubKey_Inr_cases[OF fetch] url obtain d s where
      d: "axios_get L (requests w) (url @ ?path) = Response d"
      and s: "ioExchPubkey_of d = Inr (Some (JStr s))" "fromBase64 L s = Inr k'"
      by auto
    from stable[of "requests w'"] d have "axios_get L (requests w') (apiUrl u' @ ?path) = Response d"
      using u' url by simp
    with False s same show ?thesis
      by (simp add: getConsensusIoPubKey_def Let_def)
  qed
  then obtain w'' where "getConsensusIoPubKey L (u', w') = (Inr k', u', w'')"
    by blast
  then have "getTxEncryptionKey L (privkey u') ?nonce (u', w') = (Inr key, u', w'')"
    using ikm hk priv by (simp add: getTxEncryptionKey_def bindE_def liftE_def)
  then show ?thesis
    unfolding parts decrypt_nonempty[OF ne]
    using siv opened by simp
qed

theorem seal_open_round_trip_witness:
  "SIV_contract key_server_libs \<and> secureRandom_contract key_server_libs \<and> keypair_size_contract key_server_libs
   \<and> EnigmaUtils_new key_server_libs ''http://localhost:1317'' (Some ref_seed) world0 = (Inr ref_enigma, world0)
   \<and> encrypt key_server_libs ''ab'' (JObj []) (ref_enigma\<lparr>consensusIoPubKey := []\<rparr>, world0) =
       (Inr (ref_nonce @ ref_pubkey @ [9, 47, 87, 129, 173, 219, 11, 61, 113, 167, 223, 25, 85, 147, 211, 21, 98, 99, 124, 126]),
        ref_enigma\<lparr>consensusIoPubKey := ref_io_pubkey\<rparr>, \<lparr>requests = 1, draws = 1\<rparr>)
   \<and> length (consensusIoPubKey (ref_enigma\<lparr>consensusIoPubKey := ref_io_pubkey\<rparr>)) = 32
   \<and> fst (decrypt key_server_libs (drop 64 (ref_nonce @ ref_pubkey @ [9, 47, 87, 129, 173, 219, 11, 61, 113, 167, 223, 25, 85, 147, 211, 21, 98, 99, 124, 126]))
            (take 32 (ref_nonce @ ref_pubkey @ [9, 47, 87, 129, 173, 219, 11, 61, 113, 167, 223, 25, 85, 147, 211, 21, 98, 99, 124, 126]))
            (ref_enigma\<lparr>consensusIoPubKey := ref_io_pubkey\<rparr>, \<lparr>requests = 1, draws = 1\<rparr>)) =
       Inr (toUtf8 key_server_libs (''ab'' @ JSON_stringify key_server_libs (JObj [])))"
proof -
  have h1: "SIV_contract key_server_libs"
    unfolding key_server_libs_def by (rule ref_SIV_contract)
  have h2: "secureRandom_contract key_server_libs"
    unfolding key_server_libs_def by (rule ref_secureRandom_contract)
  have h3: "keypair_size_contract key_server_libs"
    unfolding key_server_libs_def by (rule ref_keypair_size_contract)
  have h4: "EnigmaUtils_new key_server_libs ''http://localhost:1317'' (Some ref_seed) world0 = (Inr ref_enigma, world0)"
    unfolding key_server_libs_def by (rule ref_enigma_new)
  note h5 = ref_encrypt
  have h6: "length (consensusIoPubKey (ref_enigma\<lparr>consensusIoPubKey := ref_io_pubkey\<rparr>)) = 32"
    by (simp add: ref_io_pubkey_def)
  note c = seal_open_round_trip[OF h1 h2 h3 h4 h5 disjI1[OF h6]]
  from h1 h2 h3 h4 h5 h6 c show ?thesis
    by blast
qed

subsection \<open>The fee table\<close>

text \<open>
  C9. In the client the constructor returns, the fee table maps every operation to the
  entry of \<^verbatim>\<open>customFees\<close> when \<^verbatim>\<open>customFees\<close> has that operation, and to the default entry
  otherwise; without \<^verbatim>\<open>customFees\<close> it is the table of defaults, whose entries for
  upload, init, exec and send are those of the source.
\<close>

theorem fee_table_merge:
  assumes "SigningCosmWasmClient_new L url sender signer_arg seedOrEnigmaUtils customFees mode w = (Inr client, w')"
  shows "(\<forall>operation \<in> {''upload'', ''init'', ''exec'', ''send''}.
            fees client operation =
              (case customFees of
                 None \<Rightarrow> defaultFees operation
               | Some custom \<Rightarrow>
                   (case custom operation of
                      Some entry \<Rightarrow> Some entry
                    | None \<Rightarrow> defaultFees operation)))
       \<and> (customFees = None \<longrightarrow> fees client = defaultFees)
       \<and> defaultFees ''upload'' = Some (Some \<lparr>fee_amount = [\<lparr>amount = ''25000'', denom = ''ucosm''\<rparr>], gas = ''1000000''\<rparr>)
       \<and> defaultFees ''init'' = Some (Some \<lparr>fee_amount = [\<lparr>amount = ''12500'', denom = ''ucosm''\<rparr>], gas = ''500000''\<rparr>)
       \<and> defaultFees ''exec'' = Some (Some \<lparr>fee_amount = [\<lparr>amount = ''5000'', denom = ''ucosm''\<rparr>], gas = ''200000''\<rparr>)
       \<and> defaultFees ''send'' = Some (Some \<lparr>fee_amount = [\<lparr>amount = ''2000'', denom = ''ucosm''\<rparr>], gas = ''80000''\<rparr>)"
proof -
  from assms have f: "fees client = merge_fees customFees"
    by (auto simp: SigningCosmWasmClient_new_def split: prod.splits sum.splits)
  have merged: "merge_fees customFees operation =
      (case customFees of
         None \<Rightarrow> defaultFees operation
       | Some custom \<Rightarrow> (case custom operation of Some entry \<Rightarrow> Some entry | None \<Rightarrow> defaultFees operation))"
    for operation
    by (simp add: merge_fees_def Object_assign_def map_add_def split: option.splits)
  have none: "merge_fees None = defaultFees"
    by (simp add: merge_fees_def Object_assign_def)
  have d1: "defaultFees ''upload'' = Some (Some \<lparr>fee_amount = [\<lparr>amount = ''25000'', denom = ''ucosm''\<rparr>], gas = ''1000000''\<rparr>)"
    by (simp add: defaultFees_def singleAmount_def Number_toString_def)
  have d2: "defaultFees ''init'' = Some (Some \<lparr>fee_amount = [\<lparr>amount = ''12500'', denom = ''ucosm''\<rparr>], gas = ''500000''\<rparr>)"
    by (simp add: defaultFees_def singleAmount_def Number_toString_def)
  have d3: "defaultFees ''exec'' = Some (Some \<lparr>fee_amount = [\<lparr>amount = ''5000'', denom = ''ucosm''\<rparr>], gas = ''200000''\<rparr>)"
    by (simp add: defaultFees_def singleAmount_def Number_toString_def)
  have d4: "defaultFees ''send'' = Some (Some \<lparr>fee_amount = [\<lparr>amount = ''2000'', denom = ''ucosm''\<rparr>], gas = ''80000''\<rparr>)"
    by (simp add: defaultFees_def singleAmount_def Number_toString_def)
  from f merged none d1 d2 d3 d4 show ?thesis
    by simp
qed

theorem fee_table_merge_witness:
  "SigningCosmWasmClient_new key_server_libs ''http://localhost:1317'' ''secret1sender'' ()
     (Some (SeedArg ref_seed))
     (Some [''exec'' \<mapsto> Some \<lparr>fee_amount = [\<lparr>amount = ''7'', denom = ''uscrt''\<rparr>], gas = ''300000''\<rparr>])
     Block world0 =
     (Inr \<lparr>restClient = \<lparr>baseURL = ''http://localhost:1317'', broadcastMode = Block,
                           enigmautils = ref_enigma, codeHashCache = Map.empty\<rparr>,
            codesCache = Map.empty, anyValidAddress = Some ''secret1sender'', chainId = None,
            senderAddress = ''secret1sender'', signer = (),
            fees = merge_fees (Some [''exec'' \<mapsto> Some \<lparr>fee_amount = [\<lparr>amount = ''7'', denom = ''uscrt''\<rparr>], gas = ''300000''\<rparr>])\<rparr>,
      world0)
   \<and> merge_fees (Some [''exec'' \<mapsto> Some \<lparr>fee_amount = [\<lparr>amount = ''7'', denom = ''uscrt''\<rparr>], gas = ''300000''\<rparr>]) ''exec''
       = Some (Some \<lparr>fee_amount = [\<lparr>amount = ''7'', denom = ''uscrt''\<rparr>], gas = ''300000''\<rparr>)
   \<and> merge_fees (Some [''exec'' \<mapsto> Some \<lparr>fee_amount = [\<lparr>amount = ''7'', denom = ''uscrt''\<rparr>], gas = ''300000''\<rparr>]) ''send''
       = Some (Some \<lparr>fee_amount = [\<lparr>amount = ''2000'', denom = ''ucosm''\<rparr>], gas = ''80000''\<rparr>)"
proof -
  let ?custom = "[''exec'' \<mapsto> Some \<lparr>fee_amount = [\<lparr>amount = ''7'', denom = ''uscrt''\<rparr>], gas = ''300000''\<rparr>]"
  let ?client = "\<lparr>restClient = \<lparr>baseURL = ''http://localhost:1317'', broadcastMode = Block,
                           enigmautils = ref_enigma, codeHashCache = Map.empty\<rparr>,
            codesCache = Map.empty, anyValidAddress = Some ''secret1sender'', chainId = None,
            senderAddress = ''secret1sender'', signer = (),
            fees = merge_fees (Some ?custom)\<rparr>"
  have h: "SigningCosmWasmClient_new key_server_libs ''http://localhost:1317'' ''secret1sender'' ()
     (Some (SeedArg ref_seed)) (Some ?custom) Block world0 = (Inr ?client, world0)"
    unfolding key_server_libs_def
    by (simp add: SigningCosmWasmClient_new_def CosmWasmClient_new_def RestClient_new_def ref_enigma_new)
  note c = fee_table_merge[OF h]
  from c have e: "fees ?client ''exec'' = Some (Some \<lparr>fee_amount = [\<lparr>amount = ''7'', denom = ''uscrt''\<rparr>], gas = ''300000''\<rparr>)"
    by simp
  from c have s: "fees ?client ''send'' = Some (Some \<lparr>fee_amount = [\<lparr>amount = ''2000'', denom = ''ucosm''\<rparr>], gas = ''80000''\<rparr>)"
    by simp
  from h e s show ?thesis
    by simp
qed

subsection \<open>Broadcasting\<close>

lemma txhash_rgx_iff:
  "txhash_rgx h \<longleftrightarrow> h \<noteq> [] \<and> even (length h) \<and> (\<forall>ch \<in> set h. upper_hex_digit ch)"
  by (induction h rule: txhash_rgx.induct) auto

lemma RestClient_postTx_Inr:
  assumes "RestClient_postTx L stdtx (c, w) = (Inr d, c', w')"
  shows "axios_post L (requests w) (baseURL c @ ''/txs'')
           (JObj [(''tx'', stdtx), (''mode'', JStr (mode_string (broadcastMode c)))]) = Response d
         \<and> truthy (own_prop d ''txhash'') \<and> c' = c \<and> w' = w\<lparr>requests := Suc (requests w)\<rparr>"
  using assms
  by (auto simp: RestClient_postTx_def post_def bindE_def throwE_def returnE_def Let_def
      split: if_splits http_result.splits prod.splits sum.splits)

text \<open>
  C10. When \<^verbatim>\<open>postTx\<close> returns, the response of the server had a \<^verbatim>\<open>txhash\<close> that is a
  string matching the pattern, and a \<^verbatim>\<open>code\<close> that is falsy (so a \<^verbatim>\<open>code\<close> that is a number
  is zero): on every other response \<^verbatim>\<open>postTx\<close> throws. The \<^verbatim>\<open>transactionHash\<close> returned is
  that string, non-empty, of even length and made of upper-case hex digits; the logs
  are the parsed \<^verbatim>\<open>logs\<close> of the response, the empty list when it has none; \<^verbatim>\<open>rawLog\<close>
  and \<^verbatim>\<open>data\<close> are \<^verbatim>\<open>raw_log\<close> and \<^verbatim>\<open>data\<close> of the response, and the empty string when
  the response has none.
\<close>

theorem postTx_guarantee:
  assumes "CosmWasmClient_postTx L stdtx (c, w) = (Inr r, c', w')"
  shows "\<exists>d. axios_post L (requests w) (baseURL c @ ''/txs'')
               (JObj [(''tx'', stdtx), (''mode'', JStr (mode_string (broadcastMode c)))]) = Response d
           \<and> own_prop d ''txhash'' = Some (JStr (transactionHash r))
           \<and> txhash_rgx (transactionHash r)
           \<and> \<not> truthy (own_prop d ''code'')
           \<and> (\<forall>n. own_prop d ''code'' = Some (JNum n) \<longrightarrow> n = 0)
           \<and> transactionHash r \<noteq> [] \<and> even (length (transactionHash r))
           \<and> (\<forall>ch \<in> set (transactionHash r). upper_hex_digit ch)
           \<and> (if truthy (own_prop d ''logs'')
               then \<exists>ls. own_prop d ''logs'' = Some ls \<and> parseLogs ls = Inr (result_logs r)
               else result_logs r = [])
           \<and> rawLog r = or_empty_string (own_prop d ''raw_log'')
           \<and> result_data r = or_empty_string (own_prop d ''data'')
           \<and> (own_prop d ''raw_log'' = None \<longrightarrow> rawLog r = JStr [])
           \<and> (own_prop d ''data'' = None \<longrightarrow> result_data r = JStr [])"
proof -
  from assms obtain d s1 where
    p: "RestClient_postTx L stdtx (c, w) = (Inr d, s1)"
    by (auto simp: CosmWasmClient_postTx_def bindE_def split: prod.splits sum.splits)
  obtain c1 w1 where s1: "s1 = (c1, w1)"
    by (cases s1)
  from RestClient_postTx_Inr[OF p[unfolded s1]] have
    resp: "axios_post L (requests w) (baseURL c @ ''/txs'')
             (JObj [(''tx'', stdtx), (''mode'', JStr (mode_string (broadcastMode c)))]) = Response d"
    by blast
  from assms p obtain h where h: "own_prop d ''txhash'' = Some (JStr h)"
    by (auto simp: CosmWasmClient_postTx_def bindE_def throwE_def split: option.splits json.splits)
  from assms p h have m: "txhash_rgx h"
    by (auto simp: CosmWasmClient_postTx_def bindE_def throwE_def split: if_splits)
  from assms p h m have code: "\<not> truthy (own_prop d ''code'')"
    by (auto simp: CosmWasmClient_postTx_def bindE_def throwE_def split: if_splits)
  then have zero: "\<forall>n. own_prop d ''code'' = Some (JNum n) \<longrightarrow> n = 0"
    by auto
  from assms p h m code obtain parsed where
    parsed: "(case own_prop d ''logs'' of
                None \<Rightarrow> Inr []
              | Some ls \<Rightarrow> (if truthy (Some ls) then parseLogs ls else Inr [])) = Inr parsed"
    and r: "r = \<lparr>result_logs = parsed, rawLog = or_empty_string (own_prop d ''raw_log''),
                 transactionHash = h, result_data = or_empty_string (own_prop d ''data'')\<rparr>"
    by (auto simp: CosmWasmClient_postTx_def bindE_def throwE_def liftE_def returnE_def
        split: if_splits sum.splits prod.splits)
  from parsed have logs: "if truthy (own_prop d ''logs'')
               then \<exists>ls. own_prop d ''logs'' = Some ls \<and> parseLogs ls = Inr parsed
               else parsed = []"
    by (auto split: option.splits if_splits)
  from m have shape: "h \<noteq> []" "even (length h)" "\<forall>ch \<in> set h. upper_hex_digit ch"
    by (simp_all add: txhash_rgx_iff)
  from resp h m code zero shape logs r show ?thesis
    by auto
qed

theorem postTx_guarantee_witness:
  "CosmWasmClient_postTx
     (ref_libs no_server (constant_post_server (JObj [(''height'', JStr ''12''), (''txhash'', JStr ''0AF1'')])))
     (JObj [])
     (\<lparr>baseURL = ''http://localhost:1317'', broadcastMode = Block, enigmautils = ref_enigma,
        codeHashCache = Map.empty\<rparr>, world0) =
     (Inr \<lparr>result_logs = [], rawLog = JStr [], transactionHash = ''0AF1'', result_data = JStr []\<rparr>,
      \<lparr>baseURL = ''http://localhost:1317'', broadcastMode = Block, enigmautils = ref_enigma,
        codeHashCache = Map.empty\<rparr>, \<lparr>requests = 1, draws = 0\<rparr>)
   \<and> txhash_rgx ''0AF1'' \<and> even (length ''0AF1'')"
proof -
  let ?L = "ref_libs no_server (constant_post_server (JObj [(''height'', JStr ''12''), (''txhash'', JStr ''0AF1'')]))"
  let ?c = "\<lparr>baseURL = ''http://localhost:1317'', broadcastMode = Block, enigmautils = ref_enigma,
        codeHashCache = Map.empty\<rparr>"
  have h: "CosmWasmClient_postTx ?L (JObj []) (?c, world0) =
     (Inr \<lparr>result_logs = [], rawLog = JStr [], transactionHash = ''0AF1'', result_data = JStr []\<rparr>,
      ?c, \<lparr>requests = 1, draws = 0\<rparr>)"
    by (simp add: CosmWasmClient_postTx_def RestClient_postTx_def post_def bindE_def throwE_def
        returnE_def liftE_def Let_def constant_post_server_def upper_hex_digit_def world0_def)
  from postTx_guarantee[OF h] have
    "txhash_rgx (transactionHash \<lparr>result_logs = [], rawLog = JStr [], transactionHash = ''0AF1'', result_data = JStr []\<rparr>)
     \<and> even (length (transactionHash \<lparr>result_logs = [], rawLog = JStr [], transactionHash = ''0AF1'', result_data = JStr []\<rparr>))"
    by blast
  then have "txhash_rgx ''0AF1'' \<and> even (length ''0AF1'')"
    by simp
  with h show ?thesis
    by blast
qed

subsection \<open>The cache of code hashes\<close>

lemma get_cases:
  "get L path (c, w) =
     (case axios_get L (requests w) (baseURL c @ path) of
        Failure err response \<Rightarrow> (Inl (parseAxiosError L err response), c, w\<lparr>requests := Suc (requests w)\<rparr>)
      | Response d \<Rightarrow>
          (if d = JNull then (Inl (Error ''Received null response from server''), c, w\<lparr>requests := Suc (requests w)\<rparr>)
           else (Inr d, c, w\<lparr>requests := Suc (requests w)\<rparr>)))"
  by (simp add: get_def Let_def)

lemma getCodeHashByCodeId_hit:
  assumes "codeHashCache c (JNum i) = Some (Some (JStr h))"
  shows "getCodeHashByCodeId L i (c, w) = (Inr (Some (JStr h)), c, w)"
  using assms by (simp add: getCodeHashByCodeId_def)

lemma getCodeHashByCodeId_miss:
  assumes "\<And>h. codeHashCache c (JNum i) \<noteq> Some (Some (JStr h))"
  shows "getCodeHashByCodeId L i (c, w) =
     (case get L (code_hash_path i) (c, w) of
        (Inl e, s) \<Rightarrow> (Inl e, s)
      | (Inr d, c1, w1) \<Rightarrow>
          (Inr (own_prop d ''result''),
           c1\<lparr>codeHashCache := (codeHashCache c1)(JNum i \<mapsto> own_prop d ''result'')\<rparr>, w1))"
proof -
  have "getCodeHashByCodeId L i (c, w) =
      bindE (get L (code_hash_path i))
           (\<lambda>responseData. \<lambda>(c', w').
              (Inr (own_prop responseData ''result''),
               c'\<lparr>codeHashCache := (codeHashCache c')(JNum i \<mapsto> own_prop responseData ''result'')\<rparr>,
               w'))
           (c, w)"
    using assms
    by (cases "codeHashCache c (JNum i)")
       (auto simp: getCodeHashByCodeId_def split: option.splits json.splits)
  then show ?thesis
    by (simp add: bindE_def split: prod.splits sum.splits)
qed

lemma getCodeHashByContractAddr_hit:
  assumes "codeHashCache c (JStr a) = Some (Some (JStr h))"
  shows "getCodeHashByContractAddr L a (c, w) = (Inr (Some (JStr h)), c, w)"
  using assms by (simp add: getCodeHashByContractAddr_def)

lemma getCodeHashByContractAddr_miss:
  assumes "\<And>h. codeHashCache c (JStr a) \<noteq> Some (Some (JStr h))"
  shows "getCodeHashByContractAddr L a (c, w) =
     (case get L (contract_code_hash_path a) (c, w) of
        (Inl e, s) \<Rightarrow> (Inl e, s)
      | (Inr d, c1, w1) \<Rightarrow>
          (Inr (own_prop d ''result''),
           c1\<lparr>codeHashCache := (codeHashCache c1)(JStr a \<mapsto> own_prop d ''result'')\<rparr>, w1))"
proof -
  have "getCodeHashByContractAddr L a (c, w) =
      bindE (get L (contract_code_hash_path a))
           (\<lambda>responseData. \<lambda>(c', w').
              (Inr (own_prop responseData ''result''),
               c'\<lparr>codeHashCache := (codeHashCache c')(JStr a \<mapsto> own_prop responseData ''result'')\<rparr>,
               w'))
           (c, w)"
    using assms
    by (cases "codeHashCache c (JStr a)")
       (auto simp: getCodeHashByContractAddr_def split: option.splits json.splits)
  then show ?thesis
    by (simp add: bindE_def split: prod.splits sum.splits)
qed

lemma fetched_for_codeI:
  "axios_get L n (baseURL c @ code_hash_path i) = Response d \<Longrightarrow> fetched_for_code L (baseURL c) i (own_prop d ''result'')"
  unfolding fetched_for_code_def by blast

lemma fetched_for_contractI:
  "axios_get L n (baseURL c @ contract_code_hash_path a) = Response d \<Longrightarrow>
     fetched_for_contract L (baseURL c) a (own_prop d ''result'')"
  unfolding fetched_for_contract_def by blast

lemma getCodeHashByCodeId_step:
  assumes "getCodeHashByCodeId L i (c, w) = (r, c', w')"
  shows "baseURL c' = baseURL c"
    and "codeHashCache c' (JStr a) = codeHashCache c (JStr a)"
    and "codeHashCache c' (JNum j) = Some v \<Longrightarrow>
           codeHashCache c (JNum j) = Some v \<or> (j = i \<and> fetched_for_code L (baseURL c) i v)"
    and "r = Inr h \<Longrightarrow> codeHashCache c (JNum i) = Some h \<or> fetched_for_code L (baseURL c) i h"
proof -
  consider (hit) s where "codeHashCache c (JNum i) = Some (Some (JStr s))"
    | (miss) "\<And>s. codeHashCache c (JNum i) \<noteq> Some (Some (JStr s))"
    by blast
  then have "baseURL c' = baseURL c
    \<and> codeHashCache c' (JStr a) = codeHashCache c (JStr a)
    \<and> (codeHashCache c' (JNum j) = Some v \<longrightarrow>
           codeHashCache c (JNum j) = Some v \<or> (j = i \<and> fetched_for_code L (baseURL c) i v))
    \<and> (r = Inr h \<longrightarrow> codeHashCache c (JNum i) = Some h \<or> fetched_for_code L (baseURL c) i h)"
  proof cases
    case hit
    from getCodeHashByCodeId_hit[OF hit, of L w] assms show ?thesis
      using hit by auto
  next
    case miss
    note m = getCodeHashByCodeId_miss[OF miss, of L w, unfolded get_cases]
    show ?thesis
    proof (cases "axios_get L (requests w) (baseURL c @ code_hash_path i)")
      case (Response d)
      from fetched_for_codeI[OF Response] m assms Response show ?thesis
        by (auto split: if_splits)
    next
      case (Failure err response)
      with m assms show ?thesis
        by auto
    qed
  qed
  then show "baseURL c' = baseURL c"
    and "codeHashCache c' (JStr a) = codeHashCache c (JStr a)"
    and "codeHashCache c' (JNum j) = Some v \<Longrightarrow>
           codeHashCache c (JNum j) = Some v \<or> (j = i \<and> fetched_for_code L (baseURL c) i v)"
    and "r = Inr h \<Longrightarrow> codeHashCache c (JNum i) = Some h \<or> fetched_for_code L (baseURL c) i h"
    by blast+
qed

lemma getCodeHashByContractAddr_step:
  assumes "getCodeHashByContractAddr L a (c, w) = (r, c', w')"
  shows "baseURL c' = baseURL c"
    and "codeHashCache c' (JNum j) = codeHashCache c (JNum j)"
    and "codeHashCache c' (JStr b) = Some v \<Longrightarrow>
           codeHashCache c (JStr b) = Some v \<or> (b = a \<and> fetched_for_contract L (baseURL c) a v)"
    and "r = Inr h \<Longrightarrow> codeHashCache c (JStr a) = Some h \<or> fetched_for_contract L (baseURL c) a h"
proof -
  consider (hit) s where "codeHashCache c (JStr a) = Some (Some (JStr s))"
    | (miss) "\<And>s. codeHashCache c (JStr a) \<noteq> Some (Some (JStr s))"
    by blast
  then have "baseURL c' = baseURL c
    \<and> codeHashCache c' (JNum j) = codeHashCache c (JNum j)
    \<and> (codeHashCache c' (JStr b) = Some v \<longrightarrow>
           codeHashCache c (JStr b) = Some v \<or> (b = a \<and> fetched_for_contract L (baseURL c) a v))
    \<and> (r = Inr h \<longrightarrow> codeHashCache c (JStr a) = Some h \<or> fetched_for_contract L (baseURL c) a h)"
  proof cases
    case hit
    from getCodeHashByContractAddr_hit[OF hit, of L w] assms show ?thesis
      using hit by auto
  next
    case miss
    note m = getCodeHashByContractAddr_miss[OF miss, of L w, unfolded get_cases]
    show ?thesis
    proof (cases "axios_get L (requests w) (baseURL c @ contract_code_hash_path a)")
      case (Response d)
      from fetched_for_contractI[OF Response] m assms Response show ?thesis
        by (auto split: if_splits)
    next
      case (Failure err response)
      with m assms show ?thesis
        by auto
    qed
  qed
  then show "baseURL c' = baseURL c"
    and "codeHashCache c' (JNum j) = codeHashCache c (JNum j)"
    and "codeHashCache c' (JStr b) = Some v \<Longrightarrow>
           codeHashCache c (JStr b) = Some v \<or> (b = a \<and> fetched_for_contract L (baseURL c) a v)"
    and "r = Inr h \<Longrightarrow> codeHashCache c (JStr a) = Some h \<or> fetched_for_contract L (baseURL c) a h"
    by blast+
qed

lemma run_lookups_invariant:
  assumes "run_lookups L calls (c, w) = (c', w')"
    and "\<And>a v. codeHashCache c (JStr a) = Some v \<Longrightarrow> fetched_for_contract L (baseURL c) a v"
    and "\<And>i v. codeHashCache c (JNum i) = Some v \<Longrightarrow> fetched_for_code L (baseURL c) i v"
  shows "baseURL c' = baseURL c
       \<and> (\<forall>a v. codeHashCache c' (JStr a) = Some v \<longrightarrow> fetched_for_contract L (baseURL c) a v)
       \<and> (\<forall>i v. codeHashCache c' (JNum i) = Some v \<longrightarrow> fetched_for_code L (baseURL c) i v)"
  using assms
proof (induction calls arbitrary: c w)
  case Nil
  then show ?case by simp
next
  case (Cons call calls)
  show ?case
  proof (cases call)
    case (ByCodeId i)
    obtain r c1 w1 where step: "getCodeHashByCodeId L i (c, w) = (r, c1, w1)"
      by (cases "getCodeHashByCodeId L i (c, w)") auto
    note s = getCodeHashByCodeId_step[OF step]
    from Cons.prems(1) ByCodeId step have run: "run_lookups L calls (c1, w1) = (c', w')"
      by simp
    have "baseURL c' = baseURL c1
       \<and> (\<forall>a v. codeHashCache c' (JStr a) = Some v \<longrightarrow> fetched_for_contract L (baseURL c1) a v)
       \<and> (\<forall>i v. codeHashCache c' (JNum i) = Some v \<longrightarrow> fetched_for_code L (baseURL c1) i v)"
    proof (rule Cons.IH[OF run])
      fix a v assume "codeHashCache c1 (JStr a) = Some v"
      then show "fetched_for_contract L (baseURL c1) a v"
        using s(1,2) Cons.prems(2) by simp
    next
      fix j v assume "codeHashCache c1 (JNum j) = Some v"
      from s(3)[OF this] show "fetched_for_code L (baseURL c1) j v"
        using s(1) Cons.prems(3) by auto
    qed
    then show ?thesis
      using s(1) by simp
  next
    case (ByContractAddr a)
    obtain r c1 w1 where step: "getCodeHashByContractAddr L a (c, w) = (r, c1, w1)"
      by (cases "getCodeHashByContractAddr L a (c, w)") auto
    note s = getCodeHashByContractAddr_step[OF step]
    from Cons.prems(1) ByContractAddr step have run: "run_lookups L calls (c1, w1) = (c', w')"
      by simp
    have "baseURL c' = baseURL c1
       \<and> (\<forall>a v. codeHashCache c' (JStr a) = Some v \<longrightarrow> fetched_for_contract L (baseURL c1) a v)
       \<and> (\<forall>i v. codeHashCache c' (JNum i) = Some v \<longrightarrow> fetched_for_code L (baseURL c1) i v)"
    proof (rule Cons.IH[OF run])
      fix b v assume "codeHashCache c1 (JStr b) = Some v"
      from s(3)[OF this] show "fetched_for_contract L (baseURL c1) b v"
        using s(1) Cons.prems(2) by auto
    next
      fix j v assume "codeHashCache c1 (JNum j) = Some v"
      then show "fetched_for_code L (baseURL c1) j v"
        using s(1,2) Cons.prems(3) by simp
    qed
    then show ?thesis
      using s(1) by simp
  qed
qed

text \<open>
  C7. Take a client whose cache is empty and any sequence of calls of the two lookups.
  After it, a lookup by contract address returns only a value that the server gave in
  answer to a request for the code hash of that contract, and a lookup by code id only
  a value that the server gave for that code id; a lookup by code id leaves every entry
  under a contract address as it was, and a lookup by contract address leaves every
  entry under a code id as it was.
\<close>

theorem code_hash_namespaces:
  assumes "codeHashCache c0 = Map.empty"
    and "run_lookups L calls (c0, w0) = (c, w)"
  shows "(\<forall>a h c' w'. getCodeHashByContractAddr L a (c, w) = (Inr h, c', w') \<longrightarrow> fetched_for_contract L (baseURL c0) a h)
       \<and> (\<forall>i h c' w'. getCodeHashByCodeId L i (c, w) = (Inr h, c', w') \<longrightarrow> fetched_for_code L (baseURL c0) i h)
       \<and> (\<forall>i a r c' w'. getCodeHashByCodeId L i (c, w) = (r, c', w') \<longrightarrow>
             codeHashCache c' (JStr a) = codeHashCache c (JStr a))
       \<and> (\<forall>i a r c' w'. getCodeHashByContractAddr L a (c, w) = (r, c', w') \<longrightarrow>
             codeHashCache c' (JNum i) = codeHashCache c (JNum i))"
proof -
  have inv: "baseURL c = baseURL c0
       \<and> (\<forall>a v. codeHashCache c (JStr a) = Some v \<longrightarrow> fetched_for_contract L (baseURL c0) a v)
       \<and> (\<forall>i v. codeHashCache c (JNum i) = Some v \<longrightarrow> fetched_for_code L (baseURL c0) i v)"
    by (rule run_lookups_invariant[OF assms(2)]) (simp_all add: assms(1))
  have a: "fetched_for_contract L (baseURL c0) a h" if "getCodeHashByContractAddr L a (c, w) = (Inr h, c', w')" for a h c' w'
    using getCodeHashByContractAddr_step(4)[OF that, of h] inv by auto
  have b: "fetched_for_code L (baseURL c0) i h" if "getCodeHashByCodeId L i (c, w) = (Inr h, c', w')" for i h c' w'
    using getCodeHashByCodeId_step(4)[OF that, of h] inv by auto
  have f1: "codeHashCache c' (JStr a) = codeHashCache c (JStr a)"
    if "getCodeHashByCodeId L i (c, w) = (r, c', w')" for i a r c' w'
    using getCodeHashByCodeId_step(2)[OF that] .
  have f2: "codeHashCache c' (JNum i) = codeHashCache c (JNum i)"
    if "getCodeHashByContractAddr L a (c, w) = (r, c', w')" for i a r c' w'
    using getCodeHashByContractAddr_step(2)[OF that] .
  from a b f1 f2 show ?thesis
    by blast
qed

lemma hash_server_by_code_id:
  "getCodeHashByCodeId (ref_libs hash_server p) 1 (ref_rest, world0) =
     (Inr (Some (JStr ''c0de'')), ref_rest\<lparr>codeHashCache := [JNum 1 \<mapsto> Some (JStr ''c0de'')]\<rparr>,
      \<lparr>requests = 1, draws = 0\<rparr>)"
  by (simp add: getCodeHashByCodeId_def get_def bindE_def Let_def ref_rest_def hash_server_def
      code_hash_path_def Number_toString_def world0_def)

lemma hash_server_by_contract:
  "getCodeHashByContractAddr (ref_libs hash_server p) ''1''
     (ref_rest\<lparr>codeHashCache := [JNum 1 \<mapsto> Some (JStr ''c0de'')]\<rparr>, \<lparr>requests = 1, draws = 0\<rparr>) =
     (Inr (Some (JStr ''add7'')),
      ref_rest\<lparr>codeHashCache := [JNum 1 \<mapsto> Some (JStr ''c0de''), JStr ''1'' \<mapsto> Some (JStr ''add7'')]\<rparr>,
      \<lparr>requests = 2, draws = 0\<rparr>)"
  by (simp add: getCodeHashByContractAddr_def get_def bindE_def Let_def ref_rest_def hash_server_def
      contract_code_hash_path_def)

theorem code_hash_namespaces_witness:
  "codeHashCache ref_rest = Map.empty
   \<and> run_lookups (ref_libs hash_server no_post_server) [ByCodeId 1] (ref_rest, world0) =
       (ref_rest\<lparr>codeHashCache := [JNum 1 \<mapsto> Some (JStr ''c0de'')]\<rparr>, \<lparr>requests = 1, draws = 0\<rparr>)
   \<and> getCodeHashByContractAddr (ref_libs hash_server no_post_server) ''1''
       (ref_rest\<lparr>codeHashCache := [JNum 1 \<mapsto> Some (JStr ''c0de'')]\<rparr>, \<lparr>requests = 1, draws = 0\<rparr>) =
       (Inr (Some (JStr ''add7'')),
        ref_rest\<lparr>codeHashCache := [JNum 1 \<mapsto> Some (JStr ''c0de''), JStr ''1'' \<mapsto> Some (JStr ''add7'')]\<rparr>,
        \<lparr>requests = 2, draws = 0\<rparr>)
   \<and> fetched_for_contract (ref_libs hash_server no_post_server) (baseURL ref_rest) ''1'' (Some (JStr ''add7''))"
proof -
  have h1: "codeHashCache ref_rest = Map.empty"
    by (simp add: ref_rest_def)
  have h2: "run_lookups (ref_libs hash_server no_post_server) [ByCodeId 1] (ref_rest, world0) =
       (ref_rest\<lparr>codeHashCache := [JNum 1 \<mapsto> Some (JStr ''c0de'')]\<rparr>, \<lparr>requests = 1, draws = 0\<rparr>)"
    by (simp add: hash_server_by_code_id)
  note h3 = hash_server_by_contract[of no_post_server]
  from code_hash_namespaces[OF h1 h2] h3
  have "fetched_for_contract (ref_libs hash_server no_post_server) (baseURL ref_rest) ''1'' (Some (JStr ''add7''))"
    by blast
  with h1 h2 h3 show ?thesis
    by blast
qed

subsection \<open>Transactions of other senders\<close>

lemma b64_chars:
  "\<forall>n<64. b64_value (b64_char n) = Some n \<and> b64_char n \<noteq> CHR ''=''"
  unfolding b64_char_def b64_alphabet_def b64_value_def
  by (simp add: All_less_Suc numeral_eq_Suc)

lemma b64_value_char: "n < 64 \<Longrightarrow> b64_value (b64_char n) = Some n"
  using b64_chars by blast

lemma b64_char_not_pad: "n < 64 \<Longrightarrow> b64_char n \<noteq> CHR ''=''"
  using b64_chars by blast

lemma sextet_1: "(b::nat) < 256 \<Longrightarrow> b div 16 div 16 = 0"
  by simp

lemma sextet_2: "(b::nat) < 256 \<Longrightarrow> c < 256 \<Longrightarrow> b div 16 mod 16 * 16 + (b mod 16 + c div 64 div 4) = b"
proof -
  assume b: "b < 256" and c: "c < 256"
  have 1: "b div 16 mod 16 = b div 16" using b by simp
  have 2: "c div 64 div 4 = 0" using c by simp
  show ?thesis using 1 2 by simp
qed

lemma sextet_3: "(c::nat) < 256 \<Longrightarrow> c div 64 mod 4 * 64 + c mod 64 = c"
proof -
  assume c: "c < 256"
  have 1: "c div 64 mod 4 = c div 64" using c by simp
  show ?thesis using 1 by simp
qed

lemma sextet_4: "(b::nat) < 256 \<Longrightarrow> b div 16 mod 16 * 16 + b mod 16 = b"
proof -
  assume b: "b < 256"
  have 1: "b div 16 mod 16 = b div 16" using b by simp
  show ?thesis using 1 by simp
qed

lemma b64_decode_encode: "\<forall>x \<in> set bs. x < 256 \<Longrightarrow> b64_decode (b64_encode bs) = Some bs"
proof (induction bs rule: b64_encode.induct)
  case (1 a b c rest)
  have h: "a div 4 < 64" "(a mod 4) * 16 + b div 16 < 64" "(b mod 16) * 4 + c div 64 < 64" "c mod 64 < 64"
    using 1(2) by auto
  show ?case using 1 h
    by (simp add: b64_value_char b64_char_not_pad sextet_1 sextet_2 sextet_3 sextet_4)
next
  case (2 a b)
  have h: "a div 4 < 64" "(a mod 4) * 16 + b div 16 < 64" "(b mod 16) * 4  < 64"
    using 2 by auto
  show ?case using 2 h
    by (simp add: b64_value_char b64_char_not_pad sextet_1 sextet_2 sextet_3 sextet_4)
next
  case (3 a)
  have h: "a div 4 < 64" "(a mod 4) * 16 < 64"
    using 3 by auto
  show ?case using 3 h
    by (simp add: b64_value_char b64_char_not_pad sextet_1 sextet_2 sextet_3 sextet_4)
next
  case 4
  then show ?case by simp
qed

lemma ref_base64_round_trip: "ref_fromBase64 (ref_toBase64 bs) = Inr bs"
proof -
  have "\<forall>x \<in> set (map unat bs). x < 256"
  proof
    fix x assume "x \<in> set (map unat bs)"
    then obtain b :: byte where "x = unat b" by auto
    moreover have "unat b < 2 ^ LENGTH(8)" by (rule unsigned_less)
    ultimately show "x < 256" by simp
  qed
  then have "b64_decode (b64_encode (map unat bs)) = Some (map unat bs)"
    by (rule b64_decode_encode)
  then show ?thesis
    by (simp add: ref_fromBase64_def ref_toBase64_def o_def map_idI)
qed

lemma ref_toBase64_inj: "inj (toBase64 (ref_libs g p))"
proof (rule injI)
  fix x y assume "toBase64 (ref_libs g p) x = toBase64 (ref_libs g p) y"
  then have "ref_fromBase64 (ref_toBase64 x) = ref_fromBase64 (ref_toBase64 y)"
    by simp
  then show "x = y"
    by (simp add: ref_base64_round_trip)
qed

text \<open>
  C4. Given that base64 encoding is injective: take a transaction with a single message
  of type \<^verbatim>\<open>wasm/MsgExecuteContract\<close> or \<^verbatim>\<open>wasm/MsgInstantiateContract\<close>, whose \<^verbatim>\<open>msg\<close> or
  \<^verbatim>\<open>init_msg\<close> is the base64 text of an envelope. When bytes 32 to 64 of the envelope
  differ from the public key of the client, \<^verbatim>\<open>decryptTxsResponse\<close> returns the
  transaction as it got it, raises no error, and leaves the client and the world as
  they were (no request is made).
\<close>

theorem not_my_tx_unchanged:
  assumes "inj (toBase64 L)"
    and "msg (tx_value (tx txsResponse)) = [m]"
    and "msg_type m = ''wasm/MsgExecuteContract'' \<and> field = ''msg''
         \<or> msg_type m = ''wasm/MsgInstantiateContract'' \<and> field = ''init_msg''"
    and "msg_value m field = Some (JStr b64)"
    and "fromBase64 L b64 = Inr envelope"
    and "take 32 (drop 32 envelope) \<noteq> pubkey (enigmautils c)"
  shows "decryptTxsResponse L txsResponse (c, w) = (Inr txsResponse, c, w)"
proof -
  from assms(1,6) have "toBase64 L (getPubkey (enigmautils c)) \<noteq> toBase64 L (take 32 (drop 32 envelope))"
    by (auto simp: getPubkey_def dest: injD)
  with assms(2-5) show ?thesis
    by (auto simp: decryptTxsResponse_def Let_def)
qed

lemma foreign_envelope_decoded:
  "ref_fromBase64 ''BRIfLDlGU2BteoeUoa67yNXi7/wJFiMwPUpXZHF+i5gNHi9AUWJzhJWmt8jZ6vsMHS4/UGFyg5SltsfY6foLHAkvV4Gt2ws9caffGVWT0xViY3x+'' = Inr foreign_envelope"
  by (simp add: ref_fromBase64_def b64_value_def foreign_envelope_def ref_nonce_def)

theorem not_my_tx_unchanged_witness:
  "inj (toBase64 key_server_libs)
   \<and> msg (tx_value (tx foreign_tx)) =
       [\<lparr>msg_type = ''wasm/MsgExecuteContract'',
         msg_value = [''contract'' \<mapsto> JStr ''secret1contract'',
                      ''msg'' \<mapsto> JStr ''BRIfLDlGU2BteoeUoa67yNXi7/wJFiMwPUpXZHF+i5gNHi9AUWJzhJWmt8jZ6vsMHS4/UGFyg5SltsfY6foLHAkvV4Gt2ws9caffGVWT0xViY3x+'']\<rparr>]
   \<and> fromBase64 key_server_libs ''BRIfLDlGU2BteoeUoa67yNXi7/wJFiMwPUpXZHF+i5gNHi9AUWJzhJWmt8jZ6vsMHS4/UGFyg5SltsfY6foLHAkvV4Gt2ws9caffGVWT0xViY3x+'' = Inr foreign_envelope
   \<and> take 32 (drop 32 foreign_envelope) \<noteq> pubkey (enigmautils ref_rest)
   \<and> decryptTxsResponse key_server_libs foreign_tx (ref_rest, world0) = (Inr foreign_tx, ref_rest, world0)"
proof -
  let ?m = "\<lparr>msg_type = ''wasm/MsgExecuteContract'',
         msg_value = [''contract'' \<mapsto> JStr ''secret1contract'',
                      ''msg'' \<mapsto> JStr ''BRIfLDlGU2BteoeUoa67yNXi7/wJFiMwPUpXZHF+i5gNHi9AUWJzhJWmt8jZ6vsMHS4/UGFyg5SltsfY6foLHAkvV4Gt2ws9caffGVWT0xViY3x+'']\<rparr>"
  have h1: "inj (toBase64 key_server_libs)"
    unfolding key_server_libs_def by (rule ref_toBase64_inj)
  have h2: "msg (tx_value (tx foreign_tx)) = [?m]"
    by (simp add: foreign_tx_def)
  have h3: "msg_type ?m = ''wasm/MsgExecuteContract'' \<and> ''msg'' = ''msg''
         \<or> msg_type ?m = ''wasm/MsgInstantiateContract'' \<and> ''msg'' = ''init_msg''"
    by simp
  have h4: "msg_value ?m ''msg'' = Some (JStr ''BRIfLDlGU2BteoeUoa67yNXi7/wJFiMwPUpXZHF+i5gNHi9AUWJzhJWmt8jZ6vsMHS4/UGFyg5SltsfY6foLHAkvV4Gt2ws9caffGVWT0xViY3x+'')"
    by simp
  have h5: "fromBase64 key_server_libs ''BRIfLDlGU2BteoeUoa67yNXi7/wJFiMwPUpXZHF+i5gNHi9AUWJzhJWmt8jZ6vsMHS4/UGFyg5SltsfY6foLHAkvV4Gt2ws9caffGVWT0xViY3x+'' = Inr foreign_envelope"
    by (simp add: key_server_libs_def foreign_envelope_decoded)
  have h6: "take 32 (drop 32 foreign_envelope) \<noteq> pubkey (enigmautils ref_rest)"
    by (simp add: foreign_envelope_def ref_nonce_def ref_rest_def ref_pubkey_def)
  note c = not_my_tx_unchanged[OF h1 h2 h3 h4 h5 h6, of world0]
  from h1 h2 h5 h6 c show ?thesis
    by blast
qed

subsection \<open>Logs\<close>

















lemma ref_cached_decrypt_at:
  assumes "ct \<noteq> []" and "enigmautils c = ref_enigma\<lparr>consensusIoPubKey := ref_io_pubkey\<rparr>"
  shows "with_enigmautils (decrypt key_server_libs ct ref_nonce) (c, w) =
           (ref_open [9, 47, 87, 129, 173, 219, 11, 61, 113, 167, 223, 25, 85, 147, 211, 21, 89, 159, 231, 49, 125, 203, 27, 109, 193, 23, 111, 201, 37, 131, 227, 69] ct [[]], c, w)"
proof -
  have sel: "sharedKey key_server_libs = ref_sharedKey" "hkdf_compute key_server_libs = ref_hkdf"
    "SIV_importKey key_server_libs = ref_importKey" "SIV_open key_server_libs = ref_open"
    by (simp_all add: key_server_libs_def)
  have step: "getTxEncryptionKey key_server_libs ref_seed ref_nonce (ref_enigma\<lparr>consensusIoPubKey := ref_io_pubkey\<rparr>, w) =
      (case ref_sharedKey ref_seed ref_io_pubkey of
         Inl e \<Rightarrow> (Inl e, ref_enigma\<lparr>consensusIoPubKey := ref_io_pubkey\<rparr>, w)
       | Inr ikm \<Rightarrow> (ref_hkdf (ikm @ ref_nonce) ''SHA-256'' 32 [] hkdfSalt, ref_enigma\<lparr>consensusIoPubKey := ref_io_pubkey\<rparr>, w))"
    by (simp add: getTxEncryptionKey_def bindE_def liftE_def key_server_cached sel split: sum.splits)
  have key: "getTxEncryptionKey key_server_libs ref_seed ref_nonce (ref_enigma\<lparr>consensusIoPubKey := ref_io_pubkey\<rparr>, w) =
      (Inr [9, 47, 87, 129, 173, 219, 11, 61, 113, 167, 223, 25, 85, 147, 211, 21, 89, 159, 231, 49, 125, 203, 27, 109, 193, 23, 111, 201, 37, 131, 227, 69], ref_enigma\<lparr>consensusIoPubKey := ref_io_pubkey\<rparr>, w)"
    unfolding step
    by (simp add: ref_sharedKey_def ref_hkdf_def hkdfSalt_def ref_seed_def ref_io_pubkey_def ref_nonce_def)
  have same: "c\<lparr>enigmautils := ref_enigma\<lparr>consensusIoPubKey := ref_io_pubkey\<rparr>\<rparr> = c"
    using assms(2) by simp
  show ?thesis
    by (simp add: with_enigmautils_def assms(2) decrypt_nonempty[OF assms(1)] key sel ref_importKey_def same)
qed











subsection \<open>Smart queries\<close>

lemma smart_query_catch_throws [simp]:
  "smart_query_catch L nonce err s \<noteq> (Inr d, s')"
  by (auto simp: smart_query_catch_def bindE_def throwE_def split: prod.splits sum.splits)

lemma fromBase64_any_Inr:
  "fromBase64_any L v = Inr c \<longleftrightarrow> (\<exists>s. v = Some (JStr s) \<and> fromBase64 L s = Inr c)"
  by (cases "(L, v)" rule: fromBase64_any.cases) auto

text \<open>
  C8. \<^verbatim>\<open>queryContractSmart\<close> returns a value exactly when the code hash of the contract
  was found, the query was sealed, the request was answered with a body that has no
  \<^verbatim>\<open>error\<close>, and then, in this order: \<^verbatim>\<open>result.smart\<close> is decoded from base64, the bytes
  are decrypted with the nonce of the query (the first 32 bytes of the envelope sent),
  the plaintext is decoded as UTF-8, that text is decoded from base64, those bytes are
  decoded as UTF-8, and that text is parsed as JSON, which gives the value returned.
\<close>

theorem smart_query_pipeline:
  "queryContractSmart L address query s0 = (Inr v, s4) \<longleftrightarrow>
     (\<exists>h s1 encrypted s2 d s3 smart c p b z t.
        getCodeHashByContractAddr L address s0 = (Inr h, s1)
      \<and> with_enigmautils (encrypt L (as_string L h) query) s1 = (Inr encrypted, s2)
      \<and> get L (smart_query_path address (toHex L (toUtf8 L (toBase64 L encrypted)))) s2 = (Inr d, s3)
      \<and> \<not> isWasmError d
      \<and> smart_of d = Inr smart
      \<and> fromBase64_any L smart = Inr c
      \<and> with_enigmautils (decrypt L c (take 32 encrypted)) s3 = (Inr p, s4)
      \<and> fromUtf8 L p = Inr b
      \<and> fromBase64 L b = Inr z
      \<and> fromUtf8 L z = Inr t
      \<and> JSON_parse L t = Inr v)"
  by (auto simp: queryContractSmart_def bindE_def liftE_def catchE_def throwE_def Let_def
      split: prod.splits sum.splits if_splits)

lemma chain_server_code_hash:
  "getCodeHashByContractAddr key_server_libs ''secret1contract'' (ref_rest, world0) =
     (Inr (Some (JStr ''ab'')),
      ref_rest\<lparr>codeHashCache := [JStr ''secret1contract'' \<mapsto> Some (JStr ''ab'')]\<rparr>,
      \<lparr>requests = 1, draws = 0\<rparr>)"
  by (simp add: getCodeHashByContractAddr_def get_def bindE_def Let_def ref_rest_def key_server_libs_def
      chain_server_def contract_code_hash_path_def world0_def)

lemma chain_server_encrypt:
  "with_enigmautils (encrypt key_server_libs (as_string key_server_libs (Some (JStr ''ab''))) (JObj []))
     (ref_rest\<lparr>codeHashCache := [JStr ''secret1contract'' \<mapsto> Some (JStr ''ab'')]\<rparr>,
      \<lparr>requests = 1, draws = 0\<rparr>) =
     (Inr (ref_nonce @ ref_pubkey @ [9, 47, 87, 129, 173, 219, 11, 61, 113, 167, 223, 25, 85, 147, 211, 21, 98, 99, 124, 126]), queried_rest, \<lparr>requests = 2, draws = 1\<rparr>)"
  by (simp add: with_enigmautils_def as_string_def ref_rest_def ref_encrypt_at queried_rest_def)

lemma chain_server_query:
  "get key_server_libs (smart_query_path ''secret1contract'' encoded) (queried_rest, \<lparr>requests = 2, draws = 1\<rparr>) =
     (Inr (JObj [(''height'', JStr ''7''), (''result'', JObj [(''smart'', JStr ''CS9Xga3bCz1xp98ZVZPTFWY0MT4='')])]),
      queried_rest, \<lparr>requests = 3, draws = 1\<rparr>)"
  by (simp add: get_def Let_def queried_rest_def ref_rest_def key_server_libs_def chain_server_def
      smart_query_path_def)

lemma chain_server_smart_decoded:
  "ref_fromBase64 ''CS9Xga3bCz1xp98ZVZPTFWY0MT4='' = Inr [9, 47, 87, 129, 173, 219, 11, 61, 113, 167, 223, 25, 85, 147, 211, 21, 102, 52, 49, 62]"
  by (simp add: ref_fromBase64_def b64_value_def)

lemma chain_server_decrypt:
  "with_enigmautils (decrypt key_server_libs [9, 47, 87, 129, 173, 219, 11, 61, 113, 167, 223, 25, 85, 147, 211, 21, 102, 52, 49, 62]
       (take 32 (ref_nonce @ ref_pubkey @ [9, 47, 87, 129, 173, 219, 11, 61, 113, 167, 223, 25, 85, 147, 211, 21, 98, 99, 124, 126])))
     (queried_rest, w) = (Inr [101, 51, 48, 61], queried_rest, w)"
proof -
  have n: "take 32 (ref_nonce @ ref_pubkey @ [9, 47, 87, 129, 173, 219, 11, 61, 113, 167, 223, 25, 85, 147, 211, 21, 98, 99, 124, 126]) = ref_nonce"
    by (simp add: ref_nonce_def)
  have e: "enigmautils queried_rest = ref_enigma\<lparr>consensusIoPubKey := ref_io_pubkey\<rparr>"
    by (simp add: queried_rest_def)
  show ?thesis
    unfolding n by (simp add: ref_cached_decrypt_at[OF _ e] ref_open_def)
qed

theorem smart_query_pipeline_witness:
  "queryContractSmart key_server_libs ''secret1contract'' (JObj []) (ref_rest, world0) =
     (Inr (JObj []), queried_rest, \<lparr>requests = 3, draws = 1\<rparr>)"
proof -
  have sel: "fromBase64 key_server_libs = ref_fromBase64" "fromUtf8 key_server_libs = ref_fromUtf8"
    "JSON_parse key_server_libs = ref_parse"
    by (simp_all add: key_server_libs_def)
  have not_error: "\<not> isWasmError (JObj [(''height'', JStr ''7''), (''result'', JObj [(''smart'', JStr ''CS9Xga3bCz1xp98ZVZPTFWY0MT4='')])])"
    by (simp add: isWasmError_def)
  have smart: "smart_of (JObj [(''height'', JStr ''7''), (''result'', JObj [(''smart'', JStr ''CS9Xga3bCz1xp98ZVZPTFWY0MT4='')])])
      = Inr (Some (JStr ''CS9Xga3bCz1xp98ZVZPTFWY0MT4=''))"
    by (simp add: smart_of_def)
  have decoded: "fromBase64_any key_server_libs (Some (JStr ''CS9Xga3bCz1xp98ZVZPTFWY0MT4='')) = Inr [9, 47, 87, 129, 173, 219, 11, 61, 113, 167, 223, 25, 85, 147, 211, 21, 102, 52, 49, 62]"
    by (simp add: sel chain_server_smart_decoded)
  have text1: "fromUtf8 key_server_libs [101, 51, 48, 61] = Inr ''e30=''"
    by (simp add: sel ref_fromUtf8_def char_of_def bit_Suc_0_iff)
  have bytes2: "fromBase64 key_server_libs ''e30='' = Inr [123, 125]"
    by (simp add: sel ref_fromBase64_def b64_value_def)
  have text2: "fromUtf8 key_server_libs [123, 125] = Inr ''{}''"
    by (simp add: sel ref_fromUtf8_def char_of_def bit_Suc_0_iff)
  have parsed: "JSON_parse key_server_libs ''{}'' = Inr (JObj [])"
    by (simp add: sel ref_parse_def)
  show ?thesis
    unfolding smart_query_pipeline
    apply (intro exI conjI)
              apply (rule chain_server_code_hash)
             apply (rule chain_server_encrypt)
            apply (rule chain_server_query)
           apply (rule not_error)
          apply (rule smart)
         apply (rule decoded)
        apply (rule chain_server_decrypt)
       apply (rule text1)
      apply (rule bytes2)
     apply (rule text2)
    apply (rule parsed)
    done
qed


end
